theory Spec2Isabelle
  imports Complex_Main
begin

section \<open>JavaScript values and strings\<close>

text \<open>
  A JavaScript string is modelled as a \<^typ>\<open>string\<close> whose characters are the code
  points U+0000 .. U+00FF. A JavaScript number is an IEEE double; the model keeps the
  finite values as exact rationals and the three special values as constructors.
  A thrown value is either an \<open>Error\<close> object carrying a message or something else.
\<close>

datatype jsnum = Fin rat | PosInf | NegInf | NaN

datatype jsval = JNull | JUndefined | JNum jsnum | JStr string | JBool bool

datatype exn = JsError string | NonError

text \<open>\<open>error instanceof Error ? error.message : 'Unknown error'\<close>\<close>

definition errorMessageOf :: "exn \<Rightarrow> string" where
  "errorMessageOf e = (case e of JsError m \<Rightarrow> m | NonError \<Rightarrow> ''Unknown error'')"

definition lowerChar :: "char \<Rightarrow> char" where
  "lowerChar c =
     (let n = of_char c :: nat
      in if 65 \<le> n \<and> n \<le> 90 then char_of (n + 32)
         else if n = 215 then c
         else if 192 \<le> n \<and> n \<le> 222 then char_of (n + 32)
         else c)"

definition toLowerCase :: "string \<Rightarrow> string" where
  "toLowerCase s = map lowerChar s"

text \<open>The class \<open>\s\<close> of a regular expression, within U+0000 .. U+00FF.\<close>

definition isWhitespace :: "char \<Rightarrow> bool" where
  "isWhitespace c = (of_char c \<in> {9, 10, 11, 12, 13, 32, 160 :: nat})"

primrec startsWith :: "string \<Rightarrow> string \<Rightarrow> bool" where
  "startsWith s [] = True"
| "startsWith s (p # ps) = (case s of [] \<Rightarrow> False | c # cs \<Rightarrow> c = p \<and> startsWith cs ps)"

text \<open>\<open>s.includes(p)\<close>\<close>

primrec strIncludes :: "string \<Rightarrow> string \<Rightarrow> bool" where
  "strIncludes [] p = (p = [])"
| "strIncludes (c # cs) p = (startsWith (c # cs) p \<or> strIncludes cs p)"

text \<open>
  \<open>s.split(/\s+/)\<close>: the pieces between maximal runs of whitespace; a leading or
  trailing run leaves an empty piece, and the empty string gives one empty piece.
  \<open>cur\<close> is the piece being read, reversed; \<open>insep\<close> tells that the previous
  character was whitespace.
\<close>

fun splitWs :: "string \<Rightarrow> bool \<Rightarrow> string \<Rightarrow> string list" where
  "splitWs cur insep [] = [rev cur]"
| "splitWs cur insep (c # cs) =
     (if isWhitespace c
      then (if insep then splitWs cur True cs else rev cur # splitWs [] True cs)
      else splitWs (c # cur) False cs)"

definition splitWhitespace :: "string \<Rightarrow> string list" where
  "splitWhitespace s = splitWs [] False s"

text \<open>\<open>Math.round\<close> on a finite value: the nearest integer, a tie going up.\<close>

definition mathRound :: "rat \<Rightarrow> int" where
  "mathRound x = \<lfloor>x + 1 / 2\<rfloor>"

text \<open>\<open>xs.slice(a, b)\<close> for \<open>0 \<le> a \<le> b\<close>\<close>

definition slice :: "'a list \<Rightarrow> nat \<Rightarrow> nat \<Rightarrow> 'a list" where
  "slice xs a b = take (b - a) (drop a xs)"

text \<open>
  \<open>xs.sort((a, b) => b.confidence - a.confidence)\<close>: descending by confidence, and
  stable (elements of equal confidence keep their order).
\<close>

definition sortByConfidenceDesc :: "('a \<Rightarrow> int) \<Rightarrow> 'a list \<Rightarrow> 'a list" where
  "sortByConfidenceDesc conf xs = sort_key (\<lambda>x. - conf x) xs"

section \<open>Canonical model (parsers/types.ts)\<close>

record TaxonomyMatch =
  xbrlTag :: string
  taxonomyFramework :: string
  confidence :: int
  mappingMethod :: string
  synonyms :: "string list option"

record FinancialItem =
  concept :: string
  itemValue :: jsval
  unit :: string
  decimals :: "int option"
  isNil :: "bool option"
  sourceReference :: "string option"
  itemConfidence :: "int option"
  taxonomyMatch :: "TaxonomyMatch option"

section \<open>Taxonomy matching (services/TaxonomyMappingService.ts)\<close>

record MappingResult =
  mrXbrlTag :: string
  mrTaxonomyFramework :: string
  mrConfidence :: int
  mrMappingMethod :: string
  mrTaxonomyConcept :: string
  mrDescription :: "string option"

text \<open>
  The relational store is outside the repository. Each query of the service is a
  function of the store: it throws or returns its rows. The three row types are the
  column selections the service makes; a nullable \<open>confidence\<close> is taken as a number,
  as \<open>MappingResult\<close> declares it.
\<close>

record MappingRow =
  mapXbrlTag :: string
  mapConcept :: string
  mapDescription :: "string option"
  mapConfidence :: int
  mapMappingMethod :: string
  mapTaxonomyFramework :: string

record TaxonomyRow =
  taxXbrlTag :: string
  taxConcept :: string
  taxDescription :: "string option"
  taxSynonyms :: "string list option"
  taxTaxonomyFramework :: string

text \<open>The conditions that \<open>findFuzzyMatch\<close> joins with \<open>or\<close>.\<close>

datatype condition = IlikeConcept string | EqSector string | EqReportType string

record TaxonomyStore =
  selectMappings :: "string \<Rightarrow> exn + MappingRow list"
    \<comment> \<open>active mappings whose source field is the label, joined with their taxonomy, limit 1\<close>
  selectConcepts :: "string \<Rightarrow> exn + TaxonomyRow list"
    \<comment> \<open>taxonomy rows whose concept or tag is the label, limit 1\<close>
  selectCandidates :: "condition list \<Rightarrow> exn + TaxonomyRow list"
    \<comment> \<open>taxonomy rows satisfying one of the conditions, limit 20\<close>

definition findExactMapping :: "TaxonomyStore \<Rightarrow> string \<Rightarrow> MappingResult option" where
  "findExactMapping db c =
     (case selectMappings db c of
        Inl e \<Rightarrow> None
      | Inr mappings \<Rightarrow>
          (case mappings of
             mapping # _ \<Rightarrow>
               Some \<lparr>mrXbrlTag = mapXbrlTag mapping,
                     mrTaxonomyFramework = mapTaxonomyFramework mapping,
                     mrConfidence = mapConfidence mapping,
                     mrMappingMethod = mapMappingMethod mapping,
                     mrTaxonomyConcept = mapConcept mapping,
                     mrDescription = mapDescription mapping\<rparr>
           | [] \<Rightarrow>
               (case selectConcepts db c of
                  Inl e \<Rightarrow> None
                | Inr taxonomyConcepts \<Rightarrow>
                    (case taxonomyConcepts of
                       t # _ \<Rightarrow>
                         Some \<lparr>mrXbrlTag = taxXbrlTag t,
                               mrTaxonomyFramework = taxTaxonomyFramework t,
                               mrConfidence = 100,
                               mrMappingMethod = ''exact_match'',
                               mrTaxonomyConcept = taxConcept t,
                               mrDescription = taxDescription t\<rparr>
                     | [] \<Rightarrow> None))))"

definition overlapStep :: "string \<Rightarrow> string \<Rightarrow> int \<Rightarrow> int" where
  "overlapStep searchWord candidateWord acc =
     (if searchWord = candidateWord then acc + 20
      else if strIncludes candidateWord searchWord \<or> strIncludes searchWord candidateWord
           then acc + 10
      else acc)"

definition overlapScore :: "string list \<Rightarrow> string list \<Rightarrow> int" where
  "overlapScore searchWords candidateWords =
     fold (\<lambda>searchWord acc. fold (overlapStep searchWord) candidateWords acc) searchWords 0"

definition lengthPenalty :: "string \<Rightarrow> string \<Rightarrow> rat" where
  "lengthPenalty search candidate =
     (let lengthDiff = \<bar>int (length search) - int (length candidate)\<bar>
      in max 0 (of_int lengthDiff / of_nat (max (length search) (length candidate)) * 20))"

text \<open>The loop over the synonyms: \<open>search === synonym.toLowerCase()\<close> for one of them.\<close>

primrec synonymHit :: "string \<Rightarrow> string list \<Rightarrow> bool" where
  "synonymHit search [] = False"
| "synonymHit search (synonym # rest) = (search = toLowerCase synonym \<or> synonymHit search rest)"

definition calculateFuzzyScore :: "string \<Rightarrow> string \<Rightarrow> string list \<Rightarrow> int" where
  "calculateFuzzyScore searchTerm candidateTerm syns =
     (let search = toLowerCase searchTerm;
          candidate = toLowerCase candidateTerm
      in if search = candidate then 100
         else if synonymHit search syns then 95
         else
           let finalScore =
                 max 0 (of_int (overlapScore (splitWhitespace search) (splitWhitespace candidate))
                        - lengthPenalty search candidate)
           in min 100 (mathRound finalScore))"

definition fuzzyConditions :: "string \<Rightarrow> string option \<Rightarrow> string option \<Rightarrow> condition list" where
  "fuzzyConditions c sectorContext reportTypeContext =
     [IlikeConcept (''%'' @ c @ ''%'')]
     @ (case sectorContext of
          Some s \<Rightarrow> (if s \<noteq> [] \<and> s \<noteq> ''all'' then [EqSector s] else [])
        | None \<Rightarrow> [])
     @ (case reportTypeContext of
          Some r \<Rightarrow> (if r \<noteq> [] then [EqReportType r] else [])
        | None \<Rightarrow> [])"

definition scoreCandidate :: "string \<Rightarrow> TaxonomyRow \<Rightarrow> TaxonomyRow \<times> int" where
  "scoreCandidate c candidate =
     (candidate,
      calculateFuzzyScore c (taxConcept candidate)
        (case taxSynonyms candidate of Some ss \<Rightarrow> ss | None \<Rightarrow> []))"

definition findFuzzyMatch ::
  "TaxonomyStore \<Rightarrow> string \<Rightarrow> string option \<Rightarrow> string option \<Rightarrow> MappingResult option" where
  "findFuzzyMatch db c sectorContext reportTypeContext =
     (case selectCandidates db (fuzzyConditions c sectorContext reportTypeContext) of
        Inl e \<Rightarrow> None
      | Inr candidates \<Rightarrow>
          (case sortByConfidenceDesc snd
                  (filter (\<lambda>m. snd m \<ge> 80) (map (scoreCandidate c) candidates)) of
             bestMatch # _ \<Rightarrow>
               Some \<lparr>mrXbrlTag = taxXbrlTag (fst bestMatch),
                     mrTaxonomyFramework = taxTaxonomyFramework (fst bestMatch),
                     mrConfidence = snd bestMatch,
                     mrMappingMethod = ''fuzzy_match'',
                     mrTaxonomyConcept = taxConcept (fst bestMatch),
                     mrDescription = taxDescription (fst bestMatch)\<rparr>
           | [] \<Rightarrow> None))"

record AIMappingRequest =
  sourceField :: string
  sourceValue :: jsval
  reqSectorContext :: "string option"
  reqReportTypeContext :: "string option"
  existingMappings :: "MappingResult list"

text \<open>The pattern table, in the order in which the object literal lists it.\<close>

definition mappingPatterns :: "(string \<times> string \<times> string \<times> int) list" where
  "mappingPatterns =
     [(''cash'', ''us-gaap:CashAndCashEquivalentsCarryingAmount'', ''US-GAAP'', 95),
      (''accounts receivable'', ''us-gaap:AccountsReceivableNetCurrent'', ''US-GAAP'', 95),
      (''inventory'', ''us-gaap:InventoryNet'', ''US-GAAP'', 90),
      (''property'', ''us-gaap:PropertyPlantAndEquipmentNet'', ''US-GAAP'', 85),
      (''revenue'', ''us-gaap:Revenues'', ''US-GAAP'', 95),
      (''sales'', ''us-gaap:Revenues'', ''US-GAAP'', 90),
      (''net income'', ''us-gaap:NetIncomeLoss'', ''US-GAAP'', 95),
      (''total assets'', ''us-gaap:Assets'', ''US-GAAP'', 98),
      (''total liabilities'', ''us-gaap:Liabilities'', ''US-GAAP'', 98),
      (''shareholders equity'', ''us-gaap:StockholdersEquity'', ''US-GAAP'', 95)]"

text \<open>\<open>typeof value === 'number' && Math.abs(value) > 1000000\<close>\<close>

definition isLargeNumber :: "jsval \<Rightarrow> bool" where
  "isLargeNumber v =
     (case v of
        JNum (Fin r) \<Rightarrow> \<bar>r\<bar> > 1000000
      | JNum PosInf \<Rightarrow> True
      | JNum NegInf \<Rightarrow> True
      | _ \<Rightarrow> False)"

definition adjustConfidence :: "AIMappingRequest \<Rightarrow> int \<Rightarrow> int" where
  "adjustConfidence request base =
     (let c1 = (if reqSectorContext request = Some ''banking'' then base - 5 else base)
      in if isLargeNumber (sourceValue request) then min 100 (c1 + 5) else c1)"

fun matchPatterns ::
  "AIMappingRequest \<Rightarrow> string \<Rightarrow> (string \<times> string \<times> string \<times> int) list \<Rightarrow> MappingResult option" where
  "matchPatterns request field [] = None"
| "matchPatterns request field ((pattern, tag, framework, conf) # rest) =
     (if strIncludes field pattern \<or> strIncludes pattern field
      then Some \<lparr>mrXbrlTag = tag,
                 mrTaxonomyFramework = framework,
                 mrConfidence = adjustConfidence request conf,
                 mrMappingMethod = ''ai_assisted'',
                 mrTaxonomyConcept = pattern,
                 mrDescription = None\<rparr>
      else matchPatterns request field rest)"

definition simulateAIMapping :: "AIMappingRequest \<Rightarrow> MappingResult option" where
  "simulateAIMapping request =
     matchPatterns request (toLowerCase (sourceField request)) mappingPatterns"

definition getAIMapping :: "AIMappingRequest \<Rightarrow> MappingResult option" where
  "getAIMapping request = simulateAIMapping request"

text \<open>\<open>[a, b, c].filter(Boolean)\<close>\<close>

definition filterBoolean :: "'a option list \<Rightarrow> 'a list" where
  "filterBoolean xs = List.map_filter id xs"

definition selectBestMatch :: "MappingResult list \<Rightarrow> MappingResult option" where
  "selectBestMatch ms =
     (case sortByConfidenceDesc mrConfidence ms of [] \<Rightarrow> None | best # _ \<Rightarrow> Some best)"

text \<open>\<open>m && m.confidence >= threshold\<close>\<close>

definition meets :: "MappingResult option \<Rightarrow> int \<Rightarrow> bool" where
  "meets m threshold = (case m of Some r \<Rightarrow> mrConfidence r \<ge> threshold | None \<Rightarrow> False)"

text \<open>The object literal that \<open>mapFinancialItem\<close> returns for a result of a stage.\<close>

definition asMatch :: "MappingResult \<Rightarrow> string \<Rightarrow> string list option \<Rightarrow> TaxonomyMatch" where
  "asMatch m method syns =
     \<lparr>xbrlTag = mrXbrlTag m, taxonomyFramework = mrTaxonomyFramework m,
      confidence = mrConfidence m, mappingMethod = method, synonyms = syns\<rparr>"

text \<open>
  The three lookups catch their own exceptions, so the outer \<open>catch\<close> of
  \<open>mapFinancialItem\<close> (which returns \<open>null\<close>) has nothing to catch. The result
  of \<open>findFuzzyMatch\<close> has no \<open>synonyms\<close> field: the fuzzy branch returns
  \<open>undefined\<close> there.
\<close>

definition mapFinancialItem ::
  "TaxonomyStore \<Rightarrow> FinancialItem \<Rightarrow> string option \<Rightarrow> string option \<Rightarrow> TaxonomyMatch option" where
  "mapFinancialItem db item sectorContext reportTypeContext =
     (let exactMatch = findExactMapping db (concept item)
      in if meets exactMatch 95
         then map_option (\<lambda>m. asMatch m ''exact_match'' (Some [])) exactMatch
         else
           let fuzzyMatch = findFuzzyMatch db (concept item) sectorContext reportTypeContext
           in if meets fuzzyMatch 80
              then map_option (\<lambda>m. asMatch m ''fuzzy_match'' None) fuzzyMatch
              else
                let aiMatch = getAIMapping
                      \<lparr>sourceField = concept item, sourceValue = itemValue item,
                       reqSectorContext = sectorContext,
                       reqReportTypeContext = reportTypeContext,
                       existingMappings = filterBoolean [exactMatch, fuzzyMatch]\<rparr>
                in if meets aiMatch 70
                   then map_option (\<lambda>m. asMatch m ''ai_assisted'' (Some [])) aiMatch
                   else
                     (case selectBestMatch (filterBoolean [exactMatch, fuzzyMatch, aiMatch]) of
                        Some bestMatch \<Rightarrow>
                          (if mrConfidence bestMatch \<ge> 60
                           then Some (asMatch bestMatch (mrMappingMethod bestMatch) (Some []))
                           else None)
                      | None \<Rightarrow> None))"

record ItemMatch =
  imItem :: FinancialItem
  imMatch :: "TaxonomyMatch option"

definition batchSize :: nat where
  "batchSize = 50"

function mapFinancialItemsLoop ::
  "TaxonomyStore \<Rightarrow> FinancialItem list \<Rightarrow> string option \<Rightarrow> string option \<Rightarrow>
   nat \<Rightarrow> ItemMatch list \<Rightarrow> ItemMatch list" where
  "mapFinancialItemsLoop db items sc rc i results =
     (if i < length items
      then mapFinancialItemsLoop db items sc rc (i + batchSize)
             (results @ map (\<lambda>item. \<lparr>imItem = item, imMatch = mapFinancialItem db item sc rc\<rparr>)
                          (slice items i (i + batchSize)))
      else results)"
  by pat_completeness auto
termination
  by (relation "measure (\<lambda>(db, items, sc, rc, i, results). length items - i)")
     (auto simp: batchSize_def)

declare mapFinancialItemsLoop.simps [simp del]

definition mapFinancialItems ::
  "TaxonomyStore \<Rightarrow> FinancialItem list \<Rightarrow> string option \<Rightarrow> string option \<Rightarrow> ItemMatch list" where
  "mapFinancialItems db items sc rc = mapFinancialItemsLoop db items sc rc 0 []"

section \<open>The matching engine as the specification words it\<close>

text \<open>
  The number of pairs (word of the label, word of the candidate) that are equal, and the
  number of pairs that are not equal but where one word contains the other.
\<close>

definition exactWordOverlaps :: "string list \<Rightarrow> string list \<Rightarrow> nat" where
  "exactWordOverlaps sws cws = length (filter (\<lambda>(s, c). s = c) (List.product sws cws))"

definition partialWordOverlaps :: "string list \<Rightarrow> string list \<Rightarrow> nat" where
  "partialWordOverlaps sws cws =
     length (filter (\<lambda>(s, c). s \<noteq> c \<and> (strIncludes c s \<or> strIncludes s c))
               (List.product sws cws))"

text \<open>
  The score of the specification, with no rounding: 100 on case-insensitive equality, 95
  on a synonym hit, otherwise 20 points per exact word overlap plus 10 per partial one,
  minus \<open>20 * |lenA - lenB| / max(lenA, lenB)\<close>, clamped to [0, 100].
\<close>

definition specFuzzyScore :: "string \<Rightarrow> string \<Rightarrow> string list \<Rightarrow> rat" where
  "specFuzzyScore label candidate syns =
     (let a = toLowerCase label; b = toLowerCase candidate
      in if a = b then 100
         else if a \<in> set (map toLowerCase syns) then 95
         else min 100 (max 0
                (20 * of_nat (exactWordOverlaps (splitWhitespace a) (splitWhitespace b))
                 + 10 * of_nat (partialWordOverlaps (splitWhitespace a) (splitWhitespace b))
                 - 20 * of_int \<bar>int (length a) - int (length b)\<bar>
                   / of_nat (max (length a) (length b)))))"

text \<open>The first candidate among those of the highest confidence.\<close>

definition specHighest :: "MappingResult list \<Rightarrow> MappingResult option" where
  "specHighest ms =
     (case ms of
        [] \<Rightarrow> None
      | _ # _ \<Rightarrow> find (\<lambda>m. mrConfidence m = Max (set (map mrConfidence ms))) ms)"

text \<open>The results that are present, in the order of the stages.\<close>

definition specPresent :: "'a option list \<Rightarrow> 'a list" where
  "specPresent xs = concat (map (\<lambda>x. case x of None \<Rightarrow> [] | Some y \<Rightarrow> [y]) xs)"

text \<open>A stage has a result, and its confidence reaches the threshold.\<close>

definition specReaches :: "MappingResult option \<Rightarrow> int \<Rightarrow> bool" where
  "specReaches r t = (case r of None \<Rightarrow> False | Some m \<Rightarrow> t \<le> mrConfidence m)"

text \<open>
  The staged selection of the specification, from the results of the three stages: a
  stage's result is returned when it reaches the stage's threshold (95, 80, 70), with
  the tag, framework and confidence of that result and the method of the stage; when
  none does, the highest-confidence candidate is returned if it reaches 60, with the
  method it carries; otherwise there is no match.
\<close>

definition specStagedMatch ::
  "MappingResult option \<Rightarrow> MappingResult option \<Rightarrow> MappingResult option \<Rightarrow>
   TaxonomyMatch option" where
  "specStagedMatch e f a =
     (if specReaches e 95
      then map_option (\<lambda>m. \<lparr>xbrlTag = mrXbrlTag m, taxonomyFramework = mrTaxonomyFramework m,
                              confidence = mrConfidence m, mappingMethod = ''exact_match'',
                              synonyms = Some []\<rparr>) e
      else if specReaches f 80
      then map_option (\<lambda>m. \<lparr>xbrlTag = mrXbrlTag m, taxonomyFramework = mrTaxonomyFramework m,
                              confidence = mrConfidence m, mappingMethod = ''fuzzy_match'',
                              synonyms = None\<rparr>) f
      else if specReaches a 70
      then map_option (\<lambda>m. \<lparr>xbrlTag = mrXbrlTag m, taxonomyFramework = mrTaxonomyFramework m,
                              confidence = mrConfidence m, mappingMethod = ''ai_assisted'',
                              synonyms = Some []\<rparr>) a
      else case specHighest (specPresent [e, f, a]) of
             None \<Rightarrow> None
           | Some b \<Rightarrow>
               if 60 \<le> mrConfidence b
               then Some \<lparr>xbrlTag = mrXbrlTag b, taxonomyFramework = mrTaxonomyFramework b,
                          confidence = mrConfidence b, mappingMethod = mrMappingMethod b,
                          synonyms = Some []\<rparr>
               else None)"

section \<open>Concrete inputs\<close>

text \<open>A store with one learned mapping for the label \<open>Cash\<close>, of confidence 97.\<close>

definition learnedStore :: TaxonomyStore where
  "learnedStore =
     \<lparr>selectMappings = (\<lambda>c. if c = ''Cash''
          then Inr [\<lparr>mapXbrlTag = ''us-gaap:Cash'', mapConcept = ''Cash'', mapDescription = None,
                     mapConfidence = 97, mapMappingMethod = ''manual'',
                     mapTaxonomyFramework = ''US-GAAP''\<rparr>]
          else Inr []),
      selectConcepts = (\<lambda>c. Inr []),
      selectCandidates = (\<lambda>cs. Inr [])\<rparr>"

definition cashRow :: TaxonomyRow where
  "cashRow = \<lparr>taxXbrlTag = ''us-gaap:Cash'', taxConcept = ''Cash'', taxDescription = None,
               taxSynonyms = None, taxTaxonomyFramework = ''US-GAAP''\<rparr>"

text \<open>A store with no learned mapping and one taxonomy row, \<open>Cash\<close>.\<close>

definition taxonomyStore :: TaxonomyStore where
  "taxonomyStore =
     \<lparr>selectMappings = (\<lambda>c. Inr []),
      selectConcepts = (\<lambda>c. if c = ''Cash'' then Inr [cashRow] else Inr []),
      selectCandidates = (\<lambda>cs. Inr [cashRow])\<rparr>"

definition cashItem :: FinancialItem where
  "cashItem = \<lparr>concept = ''Cash'', itemValue = JNum (Fin 1000), unit = ''USD'', decimals = None,
     isNil = None, sourceReference = None, itemConfidence = Some 80, taxonomyMatch = None\<rparr>"

text \<open>
  A store where the label \<open>Cash\<close> has a learned mapping of confidence 97 to a tag of
  its own and is also a row of the taxonomy table.
\<close>

definition bothStore :: TaxonomyStore where
  "bothStore =
     \<lparr>selectMappings = (\<lambda>c. if c = ''Cash''
          then Inr [\<lparr>mapXbrlTag = ''ifrs:CashLearned'', mapConcept = ''Cash on hand'',
                     mapDescription = None, mapConfidence = 97, mapMappingMethod = ''manual'',
                     mapTaxonomyFramework = ''IFRS''\<rparr>]
          else Inr []),
      selectConcepts = (\<lambda>c. if c = ''Cash'' then Inr [cashRow] else Inr []),
      selectCandidates = (\<lambda>cs. Inr [cashRow])\<rparr>"

text \<open>
  A store whose only content is a learned mapping for the label \<open>Goodwill\<close>, entered
  by hand with confidence 75.
\<close>

definition goodwillStore :: TaxonomyStore where
  "goodwillStore =
     \<lparr>selectMappings = (\<lambda>c. if c = ''Goodwill''
          then Inr [\<lparr>mapXbrlTag = ''us-gaap:Goodwill'', mapConcept = ''Goodwill'',
                     mapDescription = None, mapConfidence = 75, mapMappingMethod = ''manual'',
                     mapTaxonomyFramework = ''US-GAAP''\<rparr>]
          else Inr []),
      selectConcepts = (\<lambda>c. Inr []),
      selectCandidates = (\<lambda>cs. Inr [])\<rparr>"

definition lineItem :: "string \<Rightarrow> FinancialItem" where
  "lineItem label = \<lparr>concept = label, itemValue = JNum (Fin 1000), unit = ''USD'',
     decimals = None, isNil = None, sourceReference = None, itemConfidence = Some 80,
     taxonomyMatch = None\<rparr>"

section \<open>Value sanitization (parsers/BaseParser.ts, parsers/CsvParser.ts)\<close>

definition isDigit :: "char \<Rightarrow> bool" where
  "isDigit c = (48 \<le> (of_char c :: nat) \<and> (of_char c :: nat) \<le> 57)"

definition digitsValue :: "string \<Rightarrow> nat" where
  "digitsValue ds = foldl (\<lambda>acc c. 10 * acc + (of_char c - 48)) 0 ds"

definition pow10 :: "int \<Rightarrow> rat" where
  "pow10 k = (if 0 \<le> k then 10 ^ nat k else 1 / 10 ^ nat (- k))"

text \<open>
  The exponent part of a decimal literal, read from the front of \<open>s\<close>: \<open>e\<close> or
  \<open>E\<close>, an optional sign and at least one digit; anything else is no exponent.
\<close>

definition exponentOf :: "string \<Rightarrow> int" where
  "exponentOf s =
     (case s of
        [] \<Rightarrow> 0
      | c # r \<Rightarrow>
          if c = CHR ''e'' \<or> c = CHR ''E''
          then (case r of
                  [] \<Rightarrow> 0
                | d # q \<Rightarrow>
                    if d = CHR ''-'' then - int (digitsValue (takeWhile isDigit q))
                    else if d = CHR ''+'' then int (digitsValue (takeWhile isDigit q))
                    else int (digitsValue (takeWhile isDigit r)))
          else 0)"

text \<open>
  \<open>parseFloat\<close>: leading whitespace is skipped and the longest prefix that is a
  decimal literal is read (a sign, then \<open>Infinity\<close> or digits with an optional
  fraction and exponent); with no such prefix the result is \<open>NaN\<close>. The value is
  kept exact: the rounding to a double is not modelled.
\<close>

definition parseFloat :: "string \<Rightarrow> jsnum" where
  "parseFloat s =
     (let t = dropWhile isWhitespace s;
          neg = (case t of [] \<Rightarrow> False | c # _ \<Rightarrow> c = CHR ''-'');
          r = (case t of [] \<Rightarrow> [] | c # q \<Rightarrow> if c = CHR ''-'' \<or> c = CHR ''+'' then q else t)
      in if startsWith r ''Infinity'' then (if neg then NegInf else PosInf)
         else
           let ip = takeWhile isDigit r;
               r1 = dropWhile isDigit r;
               hasDot = (case r1 of [] \<Rightarrow> False | c # _ \<Rightarrow> c = CHR ''.'');
               fp = (if hasDot then takeWhile isDigit (tl r1) else []);
               r2 = (if hasDot then dropWhile isDigit (tl r1) else r1)
           in if ip = [] \<and> fp = [] then NaN
              else
                let mag = of_nat (digitsValue (ip @ fp)) * pow10 (exponentOf r2 - int (length fp))
                in Fin (if neg then - mag else mag))"

definition isNaN :: "jsnum \<Rightarrow> bool" where
  "isNaN n = (case n of NaN \<Rightarrow> True | _ \<Rightarrow> False)"

definition negate :: "jsnum \<Rightarrow> jsnum" where
  "negate n = (case n of Fin r \<Rightarrow> Fin (- r) | PosInf \<Rightarrow> NegInf | NegInf \<Rightarrow> PosInf | NaN \<Rightarrow> NaN)"

definition endsWith :: "string \<Rightarrow> string \<Rightarrow> bool" where
  "endsWith s p = startsWith (rev s) (rev p)"

text \<open>\<open>value.replace(/[$,()%\s]/g, '')\<close>\<close>

definition stripFormatting :: "string \<Rightarrow> string" where
  "stripFormatting s =
     filter (\<lambda>c. c \<noteq> CHR ''$'' \<and> c \<noteq> CHR '','' \<and> c \<noteq> CHR ''('' \<and> c \<noteq> CHR '')''
                 \<and> c \<noteq> CHR ''%'' \<and> \<not> isWhitespace c) s"

text \<open>
  \<open>sanitizeValue\<close>. The result \<open>JNull\<close> is the \<open>null\<close> it returns. The branch for
  parentheses tests the cleaned value, from which the parentheses are already gone.
\<close>

definition sanitizeValue :: "jsval \<Rightarrow> jsval" where
  "sanitizeValue v =
     (if v = JNull \<or> v = JUndefined \<or> v = JStr [] then JNull
      else case v of
        JStr s \<Rightarrow>
          (let cleanValue = stripFormatting s
           in if startsWith cleanValue ''('' \<and> endsWith cleanValue '')''
              then (let numericValue =
                          parseFloat (slice cleanValue 1 (length cleanValue - 1))
                    in if isNaN numericValue then v else JNum (negate numericValue))
              else
                let numericValue = parseFloat cleanValue
                in if \<not> isNaN numericValue then JNum numericValue
                   else if toLowerCase cleanValue = ''true'' then JBool True
                   else if toLowerCase cleanValue = ''false'' then JBool False
                   else JStr cleanValue)
      | _ \<Rightarrow> v)"

text \<open>\<open>s.trim()\<close>\<close>

definition trim :: "string \<Rightarrow> string" where
  "trim s = rev (dropWhile isWhitespace (rev (dropWhile isWhitespace s)))"

text \<open>The decimal digits of a natural number, as \<open>String(n)\<close> gives them.\<close>

fun showNat :: "nat \<Rightarrow> string" where
  "showNat n = (if n < 10 then [char_of (48 + n)] else showNat (n div 10) @ [char_of (48 + n mod 10)])"

declare showNat.simps [simp del]

text \<open>\<open>generateSourceReference\<close>: the parts joined with an underscore.\<close>

definition generateSourceReference :: "string \<Rightarrow> nat option \<Rightarrow> nat option \<Rightarrow> string" where
  "generateSourceReference identifier row column =
     identifier
     @ (case row of Some r \<Rightarrow> ''_row:'' @ showNat r | None \<Rightarrow> [])
     @ (case column of Some c \<Rightarrow> ''_col:'' @ showNat c | None \<Rightarrow> [])"

text \<open>
  \<open>createFinancialItem\<close> of the CSV parser: no item when the sanitized value is
  \<open>null\<close>. Nothing in its body throws on a string, so its \<open>catch\<close> (which records
  a warning) is not reached.
\<close>

definition createFinancialItem :: "string \<Rightarrow> jsval \<Rightarrow> nat \<Rightarrow> nat option \<Rightarrow> FinancialItem option" where
  "createFinancialItem c v row column =
     (let sanitizedValue = sanitizeValue v
      in if sanitizedValue = JNull \<or> sanitizedValue = JUndefined then None
         else Some \<lparr>concept = trim c, itemValue = sanitizedValue, unit = ''USD'',
                    decimals = None, isNil = None,
                    sourceReference = Some (generateSourceReference c (Some row) column),
                    itemConfidence = Some 80, taxonomyMatch = None\<rparr>)"

section \<open>Job queue (services/JobQueueService.ts)\<close>

definition showInt :: "int \<Rightarrow> string" where
  "showInt i = (if i < 0 then CHR ''-'' # showNat (nat (- i)) else showNat (nat i))"

text \<open>
  A row of the table \<open>conversion_jobs\<close> (\<open>progress\<close> and \<open>retry_count\<close> are
  nullable columns) and the \<open>Job\<close> that \<open>mapDbJobToJob\<close> makes of it. Times are
  milliseconds; the columns \<open>output_metadata\<close> and \<open>processing_log\<close>, which no
  \<open>Job\<close> shows, are left out.
\<close>

record DbJob =
  dbId :: string
  dbDocumentId :: string
  dbStatus :: string
  dbProgress :: "int option"
  dbStartedAt :: "int option"
  dbCompletedAt :: "int option"
  dbErrorMessage :: "string option"
  dbOutputUrl :: "string option"
  dbRetryCount :: "int option"
  dbCreatedAt :: int
  dbUpdatedAt :: int

record Job =
  jobId :: string
  jobDocumentId :: string
  jobStatus :: string
  jobProgress :: int
  jobStartedAt :: "int option"
  jobCompletedAt :: "int option"
  jobErrorMessage :: "string option"
  jobOutputUrl :: "string option"
  jobRetryCount :: int
  jobCreatedAt :: int
  jobUpdatedAt :: int

text \<open>\<open>x || 0\<close> on a nullable number and \<open>s || undefined\<close> on a nullable string.\<close>

definition orZero :: "int option \<Rightarrow> int" where
  "orZero x = (case x of None \<Rightarrow> 0 | Some n \<Rightarrow> n)"

definition orUndefined :: "string option \<Rightarrow> string option" where
  "orUndefined s = (case s of None \<Rightarrow> None | Some t \<Rightarrow> if t = [] then None else Some t)"

definition mapDbJobToJob :: "DbJob \<Rightarrow> Job" where
  "mapDbJobToJob dbJob =
     \<lparr>jobId = dbId dbJob,
      jobDocumentId = dbDocumentId dbJob,
      jobStatus = dbStatus dbJob,
      jobProgress = orZero (dbProgress dbJob),
      jobStartedAt = dbStartedAt dbJob,
      jobCompletedAt = dbCompletedAt dbJob,
      jobErrorMessage = orUndefined (dbErrorMessage dbJob),
      jobOutputUrl = orUndefined (dbOutputUrl dbJob),
      jobRetryCount = orZero (dbRetryCount dbJob),
      jobCreatedAt = dbCreatedAt dbJob,
      jobUpdatedAt = dbUpdatedAt dbJob\<rparr>"

text \<open>
  The fields an update may set; \<open>None\<close> is a field that is absent. \<open>scheduleRetry\<close>
  passes \<open>retryCount\<close> and \<open>markJobAsFailed\<close> passes \<open>completedAt\<close> although the
  interface \<open>JobUpdateData\<close> does not declare them.
\<close>

record JobUpdateData =
  udStatus :: "string option"
  udProgress :: "int option"
  udErrorMessage :: "string option"
  udOutputUrl :: "string option"
  udRetryCount :: "int option"
  udStartedAt :: "int option"
  udCompletedAt :: "int option"

definition noUpdate :: JobUpdateData where
  "noUpdate = \<lparr>udStatus = None, udProgress = None, udErrorMessage = None, udOutputUrl = None,
               udRetryCount = None, udStartedAt = None, udCompletedAt = None\<rparr>"

text \<open>
  The state of the service: the table, as a map from job identifiers to rows, and the
  timers started with \<open>setTimeout\<close>, each a delay in milliseconds and the job to
  reconsider. The table itself is taken to answer; a missing row is the only failure.
\<close>

record QueueState =
  jobs :: "string \<rightharpoonup> DbJob"
  timers :: "(int \<times> string) list"

definition MAX_RETRIES :: int where
  "MAX_RETRIES = 3"

definition RETRY_DELAY_MS :: int where
  "RETRY_DELAY_MS = 5000"

definition getJob :: "string \<Rightarrow> QueueState \<Rightarrow> Job option" where
  "getJob jid st = map_option mapDbJobToJob (jobs st jid)"

definition overwrite :: "'a option \<Rightarrow> 'a \<Rightarrow> 'a" where
  "overwrite new old = (case new of Some v \<Rightarrow> v | None \<Rightarrow> old)"

definition overwriteOpt :: "'a option \<Rightarrow> 'a option \<Rightarrow> 'a option" where
  "overwriteOpt new old = (case new of Some v \<Rightarrow> Some v | None \<Rightarrow> old)"

definition applyUpdate :: "JobUpdateData \<Rightarrow> int \<Rightarrow> DbJob \<Rightarrow> DbJob" where
  "applyUpdate d now row =
     (let startedAt = (if udStatus d = Some ''processing'' \<and> udStartedAt d = None
                       then Some now else udStartedAt d);
          completedAt = (if udStatus d = Some ''completed'' \<or> udStatus d = Some ''failed''
                         then Some now else udCompletedAt d)
      in row\<lparr>dbStatus := overwrite (udStatus d) (dbStatus row),
              dbProgress := overwriteOpt (udProgress d) (dbProgress row),
              dbErrorMessage := overwriteOpt (udErrorMessage d) (dbErrorMessage row),
              dbOutputUrl := overwriteOpt (udOutputUrl d) (dbOutputUrl row),
              dbRetryCount := overwriteOpt (udRetryCount d) (dbRetryCount row),
              dbStartedAt := overwriteOpt startedAt (dbStartedAt row),
              dbCompletedAt := overwriteOpt completedAt (dbCompletedAt row),
              dbUpdatedAt := now\<rparr>)"

text \<open>
  \<open>updateJob\<close>: with no row of that identifier \<open>result[0]\<close> is \<open>undefined\<close> and
  \<open>mapDbJobToJob\<close> throws a \<open>TypeError\<close>, which the \<open>catch\<close> wraps.
\<close>

definition updateJob :: "string \<Rightarrow> JobUpdateData \<Rightarrow> int \<Rightarrow> QueueState \<Rightarrow> exn + Job \<times> QueueState" where
  "updateJob jid d now st =
     (case jobs st jid of
        None \<Rightarrow> Inl (JsError (''Failed to update job: ''
                  @ ''Cannot read properties of undefined (reading 'id')''))
      | Some row \<Rightarrow>
          (let row' = applyUpdate d now row
           in Inr (mapDbJobToJob row', st\<lparr>jobs := (jobs st)(jid \<mapsto> row')\<rparr>)))"

definition scheduleRetry ::
  "string \<Rightarrow> int \<Rightarrow> int \<Rightarrow> QueueState \<Rightarrow> exn + Job option \<times> QueueState" where
  "scheduleRetry jid retryCount now st =
     (case updateJob jid
             (noUpdate\<lparr>udStatus := Some ''pending'',
                       udRetryCount := Some retryCount,
                       udErrorMessage := Some (''Retrying (attempt '' @ showInt retryCount @ ''/''
                                               @ showInt MAX_RETRIES @ '')''),
                       udProgress := Some 0\<rparr>) now st of
        Inl e \<Rightarrow> Inl (JsError (''Failed to schedule retry: '' @ errorMessageOf e))
      | Inr (_, st1) \<Rightarrow>
          (let st2 = st1\<lparr>timers := timers st1 @ [(RETRY_DELAY_MS * retryCount, jid)]\<rparr>
           in Inr (getJob jid st2, st2)))"

text \<open>
  \<open>markJobAsFailed\<close>. The promises of \<open>scheduleRetry\<close> and \<open>updateJob\<close> are
  returned without \<open>await\<close>, so their failures are not wrapped by this \<open>catch\<close>.
\<close>

definition markJobAsFailed ::
  "string \<Rightarrow> string \<Rightarrow> int \<Rightarrow> QueueState \<Rightarrow> exn + Job option \<times> QueueState" where
  "markJobAsFailed jid errorMessage now st =
     (case getJob jid st of
        None \<Rightarrow> Inl (JsError (''Failed to mark job as failed: '' @ ''Job not found''))
      | Some job \<Rightarrow>
          if jobRetryCount job < MAX_RETRIES
          then scheduleRetry jid (jobRetryCount job + 1) now st
          else (case updateJob jid
                       (noUpdate\<lparr>udStatus := Some ''failed'',
                                 udErrorMessage := Some errorMessage,
                                 udCompletedAt := Some now\<rparr>) now st of
                  Inl e \<Rightarrow> Inl e
                | Inr (job', st') \<Rightarrow> Inr (Some job', st')))"

text \<open>
  One processing attempt that fails (\<open>ConversionService.processDocument\<close>): the job
  is set to \<open>processing\<close> with progress 0, a later step throws, and the \<open>catch\<close>
  hands the message to \<open>markJobAsFailed\<close>. The state is returned; a failure of
  \<open>markJobAsFailed\<close> itself leaves it as it was.
\<close>

definition failedAttempt :: "string \<Rightarrow> string \<Rightarrow> int \<Rightarrow> QueueState \<Rightarrow> QueueState" where
  "failedAttempt jid message now st =
     (case updateJob jid (noUpdate\<lparr>udStatus := Some ''processing'', udProgress := Some 0\<rparr>) now st of
        Inl e \<Rightarrow> (case markJobAsFailed jid (errorMessageOf e) now st of
                    Inl _ \<Rightarrow> st | Inr (_, st') \<Rightarrow> st')
      | Inr (_, st1) \<Rightarrow> (case markJobAsFailed jid message now st1 of
                           Inl _ \<Rightarrow> st1 | Inr (_, st') \<Rightarrow> st'))"

text \<open>
  The retry request of the job route (\<open>POST /api/conversions/jobs/[jobId]\<close>), for an
  authenticated owner of the job: the HTTP status and message of a rejection, or the new
  retry count.
\<close>

datatype retryResponse = Rejected nat string | RetryScheduled int

definition requestRetry :: "string \<Rightarrow> int \<Rightarrow> QueueState \<Rightarrow> retryResponse \<times> QueueState" where
  "requestRetry jid now st =
     (case getJob jid st of
        None \<Rightarrow> (Rejected 404 ''Job not found'', st)
      | Some job \<Rightarrow>
          if jobStatus job \<noteq> ''failed'' then (Rejected 400 ''Can only retry failed jobs'', st)
          else if jobRetryCount job \<ge> 3 then (Rejected 400 ''Maximum retry limit reached'', st)
          else (case scheduleRetry jid (jobRetryCount job + 1) now st of
                  Inl e \<Rightarrow> (Rejected 500 ''Internal server error'', st)
                | Inr (_, st') \<Rightarrow> (RetryScheduled (jobRetryCount job + 1), st')))"

text \<open>A new job, as \<open>createJob\<close> inserts it.\<close>

definition newJob :: "string \<Rightarrow> string \<Rightarrow> int \<Rightarrow> DbJob" where
  "newJob jid doc now =
     \<lparr>dbId = jid, dbDocumentId = doc, dbStatus = ''pending'', dbProgress = Some 0,
      dbStartedAt = None, dbCompletedAt = None, dbErrorMessage = None, dbOutputUrl = None,
      dbRetryCount = Some 0, dbCreatedAt = now, dbUpdatedAt = now\<rparr>"

definition freshQueue :: QueueState where
  "freshQueue = \<lparr>jobs = [''job-1'' \<mapsto> newJob ''job-1'' ''doc-1'' 0], timers = []\<rparr>"

section \<open>Dates\<close>

text \<open>
  A \<open>Date\<close> is its time value, milliseconds since the epoch, or \<open>None\<close> for an
  invalid date. The methods that read or set local time (\<open>getFullYear\<close>,
  \<open>setFullYear\<close>, \<open>getDate\<close>, \<open>setDate\<close>, \<open>new Date(y, m, d)\<close>) are
  modelled for a process whose time zone is UTC.
\<close>

type_synonym jsdate = "int option"

definition msPerDay :: int where
  "msPerDay = 86400000"

definition timeClip :: "int \<Rightarrow> jsdate" where
  "timeClip t = (if \<bar>t\<bar> \<le> 8640000000000000 then Some t else None)"

text \<open>The day number of the first day of a month (1 to 12) of a year, plus a day offset.\<close>

definition daysFromCivil :: "int \<Rightarrow> int \<Rightarrow> int \<Rightarrow> int" where
  "daysFromCivil y m d =
     (let y' = (if m \<le> 2 then y - 1 else y);
          era = y' div 400;
          yoe = y' - era * 400;
          doy = (153 * (if m > 2 then m - 3 else m + 9) + 2) div 5 + d - 1;
          doe = yoe * 365 + yoe div 4 - yoe div 100 + doy
      in era * 146097 + doe - 719468)"

text \<open>Year, month (1 to 12) and day of the month of a day number.\<close>

definition civilFromDays :: "int \<Rightarrow> int \<times> int \<times> int" where
  "civilFromDays z0 =
     (let z = z0 + 719468;
          era = z div 146097;
          doe = z - era * 146097;
          yoe = (doe - doe div 1460 + doe div 36524 - doe div 146096) div 365;
          y = yoe + era * 400;
          doy = doe - (365 * yoe + yoe div 4 - yoe div 100);
          mp = (5 * doy + 2) div 153;
          d = doy - (153 * mp + 2) div 5 + 1;
          m = (if mp < 10 then mp + 3 else mp - 9)
      in (if m \<le> 2 then y + 1 else y, m, d))"

text \<open>\<open>MakeDay(year, month, date)\<close> with a month counted from 0, which may overflow.\<close>

definition makeDay :: "int \<Rightarrow> int \<Rightarrow> int \<Rightarrow> int" where
  "makeDay y m d = daysFromCivil (y + m div 12) (m mod 12 + 1) 1 + d - 1"

definition getFullYear :: "int \<Rightarrow> int" where
  "getFullYear t = fst (civilFromDays (t div msPerDay))"

text \<open>\<open>new Date(year, month, 1)\<close>; a year from 0 to 99 means 1900 + year.\<close>

definition newDateYM1 :: "int \<Rightarrow> int \<Rightarrow> jsdate" where
  "newDateYM1 y m =
     timeClip (makeDay (if 0 \<le> y \<and> y \<le> 99 then 1900 + y else y) m 1 * msPerDay)"

definition setFullYear :: "jsdate \<Rightarrow> int \<Rightarrow> jsdate" where
  "setFullYear d y =
     (case d of
        None \<Rightarrow> None
      | Some t \<Rightarrow>
          (case civilFromDays (t div msPerDay) of
             (_, m, dd) \<Rightarrow> timeClip (makeDay y (m - 1) dd * msPerDay + t mod msPerDay)))"

definition setDate :: "jsdate \<Rightarrow> int \<Rightarrow> jsdate" where
  "setDate d dd =
     (case d of
        None \<Rightarrow> None
      | Some t \<Rightarrow>
          (case civilFromDays (t div msPerDay) of
             (y, m, _) \<Rightarrow> timeClip (makeDay y (m - 1) dd * msPerDay + t mod msPerDay)))"

definition padLeft :: "nat \<Rightarrow> string \<Rightarrow> string" where
  "padLeft n s = replicate (n - length s) CHR ''0'' @ s"

text \<open>
  The part of \<open>toISOString()\<close> before the \<open>T\<close>: a year of four digits, or a sign
  and six digits outside 0 to 9999. An invalid date throws a \<open>RangeError\<close>.
\<close>

definition isoDate :: "int \<Rightarrow> string" where
  "isoDate t =
     (case civilFromDays (t div msPerDay) of
        (y, m, d) \<Rightarrow>
          (if 0 \<le> y \<and> y \<le> 9999 then padLeft 4 (showNat (nat y))
           else (if y < 0 then ''-'' else ''+'') @ padLeft 6 (showNat (nat \<bar>y\<bar>)))
          @ ''-'' @ padLeft 2 (showNat (nat m)) @ ''-'' @ padLeft 2 (showNat (nat d)))"

definition formatDate :: "jsdate \<Rightarrow> exn + string" where
  "formatDate d = (case d of None \<Rightarrow> Inl (JsError ''Invalid time value'') | Some t \<Rightarrow> Inr (isoDate t))"

section \<open>Document generation (services/XBRLGenerator.ts)\<close>

record FinancialStatement =
  stType :: string
  periodEndDate :: jsdate
  fiscalYear :: int
  fiscalQuarter :: "int option"
  stItems :: "FinancialItem list"

record XBRLGenerationOptions =
  optTaxonomyFramework :: string
  optCurrency :: string
  optDocumentDate :: jsdate
  optCompanyName :: string
  optIdentifier :: "string option"
  optScheme :: "string option"

text \<open>
  The elements that the XML builder is asked for, as a tree: a tag, the attributes in
  the order in which they are set, and the children. The builder of the library is
  taken to build what it is asked for; the serialization of the tree to text is the
  library's and is not modelled.
\<close>

datatype xml = Element string "(string \<times> string) list" "xml list" | Text string

record GeneratedXBRL =
  xbrlDocument :: "xml option"  \<comment> \<open>\<open>None\<close> is the empty string of the failure branch\<close>
  totalFacts :: nat
  frameworks :: "string list"
  currencies :: "string list"
  contexts :: "string list"
  generatedAt :: int
  validationIssues :: "string list"

text \<open>\<open>s || fallback\<close> for an optional string.\<close>

definition orElse :: "string option \<Rightarrow> string \<Rightarrow> string" where
  "orElse s fallback = (case s of None \<Rightarrow> fallback | Some t \<Rightarrow> if t = [] then fallback else t)"

definition schemaRefs :: "string \<Rightarrow> xml list" where
  "schemaRefs framework =
     map (\<lambda>schema. Element ''link:schemaRef'' [(''xlink:type'', ''simple''), (''xlink:href'', schema)] [])
       (if framework = ''US-GAAP''
        then [''http://xbrl.us/us-gaap/2009-01-31/us-gaap-2009-01-31.xsd'',
              ''http://xbrl.sec.gov/dei/2023-01-31/dei-2023-01-31.xsd'']
        else if framework = ''IFRS''
        then [''http://xbrl.ifrs.org/taxonomy/2023-03-31/ifrs-full-2023-03-31.xsd'']
        else [''http://www.xbrl.org/2003/xbrl-instance-2003-12-31.xsd''])"

text \<open>\<open>statement.fiscalQuarter || ''\<close>, in a template string.\<close>

definition quarterText :: "int option \<Rightarrow> string" where
  "quarterText q = (case q of None \<Rightarrow> [] | Some n \<Rightarrow> if n = 0 then [] else showInt n)"

definition generateContextId :: "FinancialStatement \<Rightarrow> exn + string" where
  "generateContextId statement =
     (case formatDate (periodEndDate statement) of
        Inl e \<Rightarrow> Inl e
      | Inr isoText \<Rightarrow>
          Inr (''AsOf_'' @ filter (\<lambda>c. c \<noteq> CHR ''-'') isoText @ ''_'' @ stType statement @ ''_''
               @ showInt (fiscalYear statement) @ ''Q'' @ quarterText (fiscalQuarter statement)))"

text \<open>\<open>quarterMonths[q - 1] || 0\<close>\<close>

definition quarterStartMonth :: "int \<Rightarrow> int" where
  "quarterStartMonth q = (if q = 2 then 3 else if q = 3 then 6 else if q = 4 then 9 else 0)"

definition getPeriodStartDate :: "FinancialStatement \<Rightarrow> jsdate" where
  "getPeriodStartDate statement =
     (if fiscalQuarter statement \<noteq> None \<and> fiscalQuarter statement \<noteq> Some 0
      then newDateYM1 (fiscalYear statement) (quarterStartMonth (the (fiscalQuarter statement)))
      else
        (let startDate = periodEndDate statement;
             startDate1 = (case startDate of None \<Rightarrow> None
                           | Some t \<Rightarrow> setFullYear startDate (getFullYear t - 1));
             startDate2 = (case startDate1 of None \<Rightarrow> None
                           | Some t \<Rightarrow>
                               setDate startDate1 (snd (snd (civilFromDays (t div msPerDay))) + 1))
         in startDate2))"

definition periodOf :: "FinancialStatement \<Rightarrow> exn + xml" where
  "periodOf statement =
     (if stType statement = ''balance_sheet''
      then (case formatDate (periodEndDate statement) of
              Inl e \<Rightarrow> Inl e
            | Inr d \<Rightarrow> Inr (Element ''xbrli:period'' [] [Element ''xbrli:instant'' [] [Text d]]))
      else (case formatDate (getPeriodStartDate statement) of
              Inl e \<Rightarrow> Inl e
            | Inr s \<Rightarrow>
                (case formatDate (periodEndDate statement) of
                   Inl e \<Rightarrow> Inl e
                 | Inr d \<Rightarrow>
                     Inr (Element ''xbrli:period'' []
                            [Element ''xbrli:startDate'' [] [Text s],
                             Element ''xbrli:endDate'' [] [Text d]]))))"

definition createContextForStatement :: "FinancialStatement \<Rightarrow> XBRLGenerationOptions \<Rightarrow> exn + xml" where
  "createContextForStatement statement options =
     (case generateContextId statement of
        Inl e \<Rightarrow> Inl e
      | Inr contextId \<Rightarrow>
          (case periodOf statement of
             Inl e \<Rightarrow> Inl e
           | Inr period \<Rightarrow>
               Inr (Element ''xbrli:context'' [(''id'', contextId)]
                      [Element ''xbrli:entity'' []
                         [Element ''xbrli:identifier''
                            [(''scheme'', orElse (optScheme options) ''http://www.sec.gov/CIK'')]
                            [Text (orElse (optIdentifier options) ''UNKNOWN'')]],
                       period])))"

text \<open>
  The first loop of \<open>generateXBRL\<close>: for each statement, in order, its context element
  is imported into the root and its identifier is added to the set \<open>contexts\<close>.
\<close>

fun createContexts :: "FinancialStatement list \<Rightarrow> XBRLGenerationOptions \<Rightarrow> exn + (xml list \<times> string list)" where
  "createContexts [] options = Inr ([], [])"
| "createContexts (statement # rest) options =
     (case createContextForStatement statement options of
        Inl e \<Rightarrow> Inl e
      | Inr context \<Rightarrow>
          (case generateContextId statement of
             Inl e \<Rightarrow> Inl e
           | Inr contextId \<Rightarrow>
               (case createContexts rest options of
                  Inl e \<Rightarrow> Inl e
                | Inr (cs, ids) \<Rightarrow> Inr (context # cs, contextId # ids))))"

text \<open>\<open>Array.from\<close> of a set filled in this order: each value once, at its first place.\<close>

definition insertionOrder :: "'a list \<Rightarrow> 'a list" where
  "insertionOrder xs = rev (remdups (rev xs))"

definition unitDefinitions :: "string \<Rightarrow> xml list" where
  "unitDefinitions currency =
     [Element ''xbrli:unit'' [(''id'', ''USD'')]
        [Element ''xbrli:measure'' [] [Text (''iso4217:'' @ currency)]],
      Element ''xbrli:unit'' [(''id'', ''pure'')]
        [Element ''xbrli:measure'' [] [Text ''xbrli:pure'']]]"

definition generateDocumentContext :: "XBRLGenerationOptions \<Rightarrow> exn + string" where
  "generateDocumentContext options =
     (case formatDate (optDocumentDate options) of
        Inl e \<Rightarrow> Inl e
      | Inr isoText \<Rightarrow> Inr (''Document_'' @ filter (\<lambda>c. c \<noteq> CHR ''-'') isoText))"

definition entityInformation :: "XBRLGenerationOptions \<Rightarrow> exn + xml list" where
  "entityInformation options =
     (case generateDocumentContext options of
        Inl e \<Rightarrow> Inl e
      | Inr ctx \<Rightarrow>
          (case formatDate (optDocumentDate options) of
             Inl e \<Rightarrow> Inl e
           | Inr d \<Rightarrow>
               Inr ((if optCompanyName options \<noteq> []
                     then [Element ''dei:EntityRegistrantName'' [(''contextRef'', ctx)]
                             [Text (optCompanyName options)]]
                     else [])
                    @ [Element ''dei:DocumentPeriodEndDate'' [(''contextRef'', ctx)] [Text d],
                       Element ''dei:DocumentFiscalYearFocus'' [(''contextRef'', ctx)]
                         [Text (showInt (getFullYear (the (optDocumentDate options))))]])))"

definition isAlphaNumeric :: "char \<Rightarrow> bool" where
  "isAlphaNumeric c =
     (let n = of_char c :: nat
      in (48 \<le> n \<and> n \<le> 57) \<or> (65 \<le> n \<and> n \<le> 90) \<or> (97 \<le> n \<and> n \<le> 122))"

definition getXBRLTagName :: "FinancialItem \<Rightarrow> string option" where
  "getXBRLTagName item =
     (case (case taxonomyMatch item of
              Some m \<Rightarrow> if xbrlTag m \<noteq> [] then Some (xbrlTag m) else None
            | None \<Rightarrow> None) of
        Some tag \<Rightarrow> Some tag
      | None \<Rightarrow>
          if concept item \<noteq> [] then Some (''us-gaap:'' @ filter isAlphaNumeric (concept item))
          else None)"

text \<open>
  Numbers as text, for magnitudes below \<open>10^21\<close>, where \<open>toFixed\<close> and
  \<open>toString\<close> give plain decimal digits. \<open>toFixed\<close> throws a \<open>RangeError\<close> for
  more than 100 digits.
\<close>

definition toFixed :: "jsnum \<Rightarrow> int \<Rightarrow> exn + string" where
  "toFixed x f =
     (if f < 0 \<or> 100 < f
      then Inl (JsError ''toFixed() digits argument must be between 0 and 100'')
      else case x of
        NaN \<Rightarrow> Inr ''NaN''
      | PosInf \<Rightarrow> Inr ''Infinity''
      | NegInf \<Rightarrow> Inr ''-Infinity''
      | Fin r \<Rightarrow>
          (let n = nat \<lfloor>\<bar>r\<bar> * 10 ^ nat f + 1 / 2\<rfloor>;
               ds = padLeft (nat f + 1) (showNat n);
               k = length ds - nat f
           in Inr ((if r < 0 then ''-'' else [])
                   @ take k ds @ (if f = 0 then [] else ''.'' @ drop k ds))))"

definition numberToString :: "jsnum \<Rightarrow> string" where
  "numberToString x =
     (case x of
        NaN \<Rightarrow> ''NaN''
      | PosInf \<Rightarrow> ''Infinity''
      | NegInf \<Rightarrow> ''-Infinity''
      | Fin r \<Rightarrow> showInt \<lfloor>r\<rfloor>)"

text \<open>\<open>(Math.round(value / divisor) * divisor)\<close>\<close>

definition roundToMultiple :: "jsnum \<Rightarrow> rat \<Rightarrow> jsnum" where
  "roundToMultiple x divisor =
     (case x of Fin r \<Rightarrow> Fin (of_int (mathRound (r / divisor)) * divisor) | _ \<Rightarrow> x)"

text \<open>\<open>numStr.replace(/\.?0+$/, '')\<close>\<close>

definition stripTrailingZeros :: "string \<Rightarrow> string" where
  "stripTrailingZeros s =
     (if takeWhile (\<lambda>c. c = CHR ''0'') (rev s) = [] then s
      else (let t = rev (dropWhile (\<lambda>c. c = CHR ''0'') (rev s))
            in if t \<noteq> [] \<and> last t = CHR ''.'' then butlast t else t))"

definition formatNumberValue :: "jsnum \<Rightarrow> int option \<Rightarrow> exn + string" where
  "formatNumberValue v decs =
     (case (case decs of
              Some d \<Rightarrow> if d \<ge> 0 then toFixed v d
                        else Inr (numberToString (roundToMultiple v (10 ^ nat \<bar>d\<bar>)))
            | None \<Rightarrow> toFixed v 2) of
        Inl e \<Rightarrow> Inl e
      | Inr numStr \<Rightarrow>
          Inr (if strIncludes numStr ''.'' then stripTrailingZeros numStr else numStr))"

definition createFinancialFact :: "FinancialItem \<Rightarrow> string \<Rightarrow> string \<Rightarrow> exn + xml option" where
  "createFinancialFact item contextId currency =
     (if isNil item = Some True \<or> itemValue item = JNull \<or> itemValue item = JUndefined
      then (case getXBRLTagName item of
              None \<Rightarrow> Inr None
            | Some tagName \<Rightarrow>
                Inr (Some (Element tagName
                       [(''contextRef'', contextId), (''unitRef'', ''USD''), (''xsi:nil'', ''true'')] [])))
      else (case getXBRLTagName item of
              None \<Rightarrow> Inr None
            | Some tagName \<Rightarrow>
                (case (case itemValue item of
                         JNum n \<Rightarrow> (case formatNumberValue n (decimals item) of
                                      Inl e \<Rightarrow> Inl e | Inr s \<Rightarrow> Inr (s, currency))
                       | JBool b \<Rightarrow> Inr (if b then ''true'' else ''false'', ''pure'')
                       | JStr s \<Rightarrow> Inr (s, ''pure'')
                       | _ \<Rightarrow> Inr ([], ''pure'')) of
                   Inl e \<Rightarrow> Inl e
                 | Inr (content, unitRef) \<Rightarrow>
                     Inr (Some (Element tagName
                            ([(''contextRef'', contextId), (''unitRef'', unitRef)]
                             @ (case decimals item of
                                  Some d \<Rightarrow> [(''decimals'', showInt d)] | None \<Rightarrow> []))
                            [Text content])))))"

text \<open>
  \<open>createFinancialFacts\<close>: an item whose fact cannot be made (an exception, caught and
  written to the console, or no tag) is left out.
\<close>

fun createFinancialFacts :: "FinancialItem list \<Rightarrow> string \<Rightarrow> string \<Rightarrow> xml list" where
  "createFinancialFacts [] contextId currency = []"
| "createFinancialFacts (item # rest) contextId currency =
     (case createFinancialFact item contextId currency of
        Inl e \<Rightarrow> createFinancialFacts rest contextId currency
      | Inr None \<Rightarrow> createFinancialFacts rest contextId currency
      | Inr (Some factElement) \<Rightarrow> factElement # createFinancialFacts rest contextId currency)"

text \<open>The second loop of \<open>generateXBRL\<close>: the facts of each statement, in order.\<close>

fun allFacts :: "FinancialStatement list \<Rightarrow> string \<Rightarrow> exn + xml list" where
  "allFacts [] currency = Inr []"
| "allFacts (statement # rest) currency =
     (case generateContextId statement of
        Inl e \<Rightarrow> Inl e
      | Inr contextId \<Rightarrow>
          (case allFacts rest currency of
             Inl e \<Rightarrow> Inl e
           | Inr fs \<Rightarrow> Inr (createFinancialFacts (stItems statement) contextId currency @ fs)))"

definition NAMESPACES :: "(string \<times> string) list" where
  "NAMESPACES =
     [(''xbrli'', ''http://www.xbrl.org/2003/instance''),
      (''link'', ''http://www.xbrl.org/2003/linkbase''),
      (''xlink'', ''http://www.w3.org/1999/xlink''),
      (''xsi'', ''http://www.w3.org/2001/XMLSchema-instance''),
      (''iso4217'', ''http://www.xbrl.org/2003/iso4217''),
      (''us-gaap'', ''http://xbrl.us/us-gaap/2009-01-31''),
      (''ifrs'', ''http://xbrl.ifrs.org/taxonomy/2023-03-31/ifrs-full''),
      (''dei'', ''http://xbrl.sec.gov/dei/2023-01-31'')]"

text \<open>The body of the \<open>try\<close> block of \<open>generateXBRL\<close>.\<close>

definition generateXBRLBody ::
  "FinancialStatement list \<Rightarrow> XBRLGenerationOptions \<Rightarrow> int \<Rightarrow> exn + GeneratedXBRL" where
  "generateXBRLBody statements options now =
     (case createContexts statements options of
        Inl e \<Rightarrow> Inl e
      | Inr (contextElements, contextIds) \<Rightarrow>
          (case entityInformation options of
             Inl e \<Rightarrow> Inl e
           | Inr entityFacts \<Rightarrow>
               (case allFacts statements (optCurrency options) of
                  Inl e \<Rightarrow> Inl e
                | Inr facts \<Rightarrow>
                    Inr \<lparr>xbrlDocument =
                           Some (Element ''xbrli:xbrl'' NAMESPACES
                                  (schemaRefs (optTaxonomyFramework options)
                                   @ contextElements
                                   @ unitDefinitions (optCurrency options)
                                   @ entityFacts
                                   @ facts)),
                         totalFacts = length facts,
                         frameworks = (if statements = [] then []
                                       else [optTaxonomyFramework options]),
                         currencies = [optCurrency options],
                         contexts = insertionOrder contextIds,
                         generatedAt = now,
                         validationIssues = []\<rparr>)))"

text \<open>
  \<open>generateXBRL\<close>: the \<open>catch\<close> turns an exception of the body into the failure
  result. The result type keeps a place for an exception that would leave the function.
\<close>

definition generateXBRL ::
  "FinancialStatement list \<Rightarrow> XBRLGenerationOptions \<Rightarrow> int \<Rightarrow> exn + GeneratedXBRL" where
  "generateXBRL statements options now =
     (case generateXBRLBody statements options now of
        Inr result \<Rightarrow> Inr result
      | Inl error \<Rightarrow>
          Inr \<lparr>xbrlDocument = None, totalFacts = 0, frameworks = [], currencies = [],
               contexts = [], generatedAt = now,
               validationIssues = [''Generation failed: '' @ errorMessageOf error]\<rparr>)"

section \<open>Reading a generated document\<close>

definition childrenOf :: "xml \<Rightarrow> xml list" where
  "childrenOf x = (case x of Element _ _ cs \<Rightarrow> cs | Text _ \<Rightarrow> [])"

definition tagOf :: "xml \<Rightarrow> string" where
  "tagOf x = (case x of Element t _ _ \<Rightarrow> t | Text _ \<Rightarrow> [])"

definition attributeOf :: "string \<Rightarrow> xml \<Rightarrow> string option" where
  "attributeOf name x = (case x of Element _ attrs _ \<Rightarrow> map_of attrs name | Text _ \<Rightarrow> None)"

text \<open>The identifiers of the elements with a given tag among the children of the root.\<close>

definition declaredIds :: "string \<Rightarrow> xml \<Rightarrow> string list" where
  "declaredIds tag doc =
     List.map_filter (attributeOf ''id'') (filter (\<lambda>c. tagOf c = tag) (childrenOf doc))"

text \<open>The values of a reference attribute on the children of the root that carry it.\<close>

definition references :: "string \<Rightarrow> xml \<Rightarrow> string list" where
  "references name doc = List.map_filter (attributeOf name) (childrenOf doc)"

text \<open>The text of the measure of each unit element.\<close>

definition unitMeasures :: "xml \<Rightarrow> (string \<times> string) list" where
  "unitMeasures doc =
     concat (map (\<lambda>u. case u of
                   Element t attrs [Element _ _ [Text m]] \<Rightarrow>
                     (case map_of attrs ''id'' of Some i \<Rightarrow> [(i, m)] | None \<Rightarrow> [])
                 | _ \<Rightarrow> [])
               (filter (\<lambda>c. tagOf c = ''xbrli:unit'') (childrenOf doc)))"

text \<open>Every context and unit reference of the document names a declared element.\<close>

definition referencesResolved :: "xml \<Rightarrow> bool" where
  "referencesResolved doc =
     (list_all (\<lambda>r. r \<in> set (declaredIds ''xbrli:context'' doc)) (references ''contextRef'' doc)
      \<and> list_all (\<lambda>r. r \<in> set (declaredIds ''xbrli:unit'' doc)) (references ''unitRef'' doc))"

section \<open>Concrete statements\<close>

text \<open>31 December 2023, 00:00 UTC.\<close>

definition endOf2023 :: jsdate where
  "endOf2023 = Some 1703980800000"

definition revenueItem :: FinancialItem where
  "revenueItem = \<lparr>concept = ''Revenue'', itemValue = JNum (Fin 1500), unit = ''USD'',
     decimals = None, isNil = None, sourceReference = None, itemConfidence = Some 80,
     taxonomyMatch = None\<rparr>"

definition incomeStatement :: FinancialStatement where
  "incomeStatement = \<lparr>stType = ''income_statement'', periodEndDate = endOf2023,
     fiscalYear = 2023, fiscalQuarter = None, stItems = [revenueItem]\<rparr>"

definition eurOptions :: XBRLGenerationOptions where
  "eurOptions = \<lparr>optTaxonomyFramework = ''US-GAAP'', optCurrency = ''EUR'',
     optDocumentDate = endOf2023, optCompanyName = ''Example AG'',
     optIdentifier = None, optScheme = None\<rparr>"

definition costItem :: FinancialItem where
  "costItem = \<lparr>concept = ''Cost of sales'', itemValue = JNum (Fin 900), unit = ''USD'',
     decimals = None, isNil = None, sourceReference = None, itemConfidence = Some 80,
     taxonomyMatch = None\<rparr>"

text \<open>A second statement of the same kind, period, fiscal year and quarter.\<close>

definition costStatement :: FinancialStatement where
  "costStatement = \<lparr>stType = ''income_statement'', periodEndDate = endOf2023,
     fiscalYear = 2023, fiscalQuarter = None, stItems = [costItem]\<rparr>"

text \<open>An item that asks for 101 decimal places.\<close>

definition preciseItem :: FinancialItem where
  "preciseItem = \<lparr>concept = ''Revenue'', itemValue = JNum (Fin 1500), unit = ''USD'',
     decimals = Some 101, isNil = None, sourceReference = None, itemConfidence = Some 80,
     taxonomyMatch = None\<rparr>"

definition preciseStatement :: FinancialStatement where
  "preciseStatement = \<lparr>stType = ''income_statement'', periodEndDate = endOf2023,
     fiscalYear = 2023, fiscalQuarter = None, stItems = [preciseItem]\<rparr>"

definition undatedStatement :: FinancialStatement where
  "undatedStatement = \<lparr>stType = ''income_statement'', periodEndDate = None,
     fiscalYear = 2023, fiscalQuarter = None, stItems = [revenueItem]\<rparr>"

text \<open>The document of a result, if there is one.\<close>

definition documentOf :: "exn + GeneratedXBRL \<Rightarrow> xml option" where
  "documentOf r = (case r of Inl _ \<Rightarrow> None | Inr g \<Rightarrow> xbrlDocument g)"

text \<open>The context element of these statements and the entity facts of these options.\<close>

definition exampleContext :: xml where
  "exampleContext =
     Element ''xbrli:context'' [(''id'', ''AsOf_20231231_income_statement_2023Q'')]
       [Element ''xbrli:entity'' []
          [Element ''xbrli:identifier'' [(''scheme'', ''http://www.sec.gov/CIK'')]
             [Text ''UNKNOWN'']],
        Element ''xbrli:period'' []
          [Element ''xbrli:startDate'' [] [Text ''2023-01-01''],
           Element ''xbrli:endDate'' [] [Text ''2023-12-31'']]]"

definition exampleEntityFacts :: "xml list" where
  "exampleEntityFacts =
     [Element ''dei:EntityRegistrantName'' [(''contextRef'', ''Document_20231231'')]
        [Text ''Example AG''],
      Element ''dei:DocumentPeriodEndDate'' [(''contextRef'', ''Document_20231231'')]
        [Text ''2023-12-31''],
      Element ''dei:DocumentFiscalYearFocus'' [(''contextRef'', ''Document_20231231'')]
        [Text ''2023'']]"

section \<open>Properties of the matching engine\<close>

subsection \<open>Batched matching\<close>

lemma mapFinancialItemsLoop_eq:
  "mapFinancialItemsLoop db items sc rc i results =
   results @ map (\<lambda>item. \<lparr>imItem = item, imMatch = mapFinancialItem db item sc rc\<rparr>) (drop i items)"
proof (induction db items sc rc i results rule: mapFinancialItemsLoop.induct)
  case (1 db items sc rc i results)
  show ?case
  proof (cases "i < length items")
    case True
    have split: "drop i items = take batchSize (drop i items) @ drop (i + batchSize) items"
      by (metis add.commute append_take_drop_id drop_drop)
    have "mapFinancialItemsLoop db items sc rc i results =
          mapFinancialItemsLoop db items sc rc (i + batchSize)
             (results @ map (\<lambda>item. \<lparr>imItem = item, imMatch = mapFinancialItem db item sc rc\<rparr>)
                          (slice items i (i + batchSize)))"
      using True by (subst mapFinancialItemsLoop.simps) simp
    also have "\<dots> = (results @ map (\<lambda>item. \<lparr>imItem = item, imMatch = mapFinancialItem db item sc rc\<rparr>)
                          (slice items i (i + batchSize))) @
                 map (\<lambda>item. \<lparr>imItem = item, imMatch = mapFinancialItem db item sc rc\<rparr>)
                   (drop (i + batchSize) items)"
      using 1 True by simp
    also have "\<dots> = results @ map (\<lambda>item. \<lparr>imItem = item, imMatch = mapFinancialItem db item sc rc\<rparr>)
                          (drop i items)"
      using split by (simp add: slice_def flip: map_append)
    finally show ?thesis .
  next
    case False
    then show ?thesis by (subst mapFinancialItemsLoop.simps) simp
  qed
qed

text \<open>
  C10. For every list of line items, the batched matching returns a list of the same
  length whose i-th entry pairs the i-th input item with the match of that item:
  batching in groups of 50 keeps the order and drops or duplicates nothing.
\<close>

theorem mapFinancialItems_aligned:
  "mapFinancialItems db items sc rc =
     map (\<lambda>item. \<lparr>imItem = item, imMatch = mapFinancialItem db item sc rc\<rparr>) items
   \<and> length (mapFinancialItems db items sc rc) = length items"
  by (simp add: mapFinancialItems_def mapFinancialItemsLoop_eq del: mapFinancialItemsLoop.simps)

subsection \<open>The fuzzy score\<close>

lemma synonymHit_iff: "synonymHit s syns = (s \<in> set (map toLowerCase syns))"
  by (induction syns) auto

lemma overlapStep_fold:
  "fold (overlapStep s) cws acc =
     acc + 20 * int (length (filter (\<lambda>c. s = c) cws))
         + 10 * int (length (filter (\<lambda>c. s \<noteq> c \<and> (strIncludes c s \<or> strIncludes s c)) cws))"
  by (induction cws arbitrary: acc) (auto simp: overlapStep_def)

lemma overlap_fold:
  "fold (\<lambda>s acc. fold (overlapStep s) cws acc) sws acc =
     acc + 20 * int (exactWordOverlaps sws cws) + 10 * int (partialWordOverlaps sws cws)"
proof (induction sws arbitrary: acc)
  case Nil
  then show ?case by (simp add: exactWordOverlaps_def partialWordOverlaps_def)
next
  case (Cons s sws)
  have "fold (\<lambda>s acc. fold (overlapStep s) cws acc) (s # sws) acc =
        fold (\<lambda>s acc. fold (overlapStep s) cws acc) sws (fold (overlapStep s) cws acc)"
    by simp
  also have "\<dots> = fold (overlapStep s) cws acc
        + 20 * int (exactWordOverlaps sws cws) + 10 * int (partialWordOverlaps sws cws)"
    by (rule Cons.IH)
  also have "\<dots> = acc + 20 * int (exactWordOverlaps (s # sws) cws)
        + 10 * int (partialWordOverlaps (s # sws) cws)"
    by (simp add: overlapStep_fold exactWordOverlaps_def partialWordOverlaps_def filter_map o_def)
  finally show ?case .
qed

lemma overlapScore_counts:
  "overlapScore sws cws =
     20 * int (exactWordOverlaps sws cws) + 10 * int (partialWordOverlaps sws cws)"
  by (simp add: overlapScore_def overlap_fold)

lemma lengthPenalty_eq:
  "lengthPenalty a b =
     20 * of_int \<bar>int (length a) - int (length b)\<bar> / of_nat (max (length a) (length b))"
proof -
  have "(0::rat) \<le> of_int \<bar>int (length a) - int (length b)\<bar>
          / of_nat (max (length a) (length b)) * 20"
    by (intro mult_nonneg_nonneg divide_nonneg_nonneg) simp_all
  then show ?thesis by (simp add: lengthPenalty_def Let_def max_def)
qed

lemma mathRound_mono: "x \<le> y \<Longrightarrow> mathRound x \<le> mathRound y"
  by (simp add: mathRound_def floor_mono)

lemma mathRound_of_int: "mathRound (of_int n) = n"
  unfolding mathRound_def by linarith

lemma mathRound_min100: "mathRound (min 100 y) = min 100 (mathRound y)"
proof (cases "y \<le> 100")
  case True
  then have "mathRound y \<le> 100"
    using mathRound_mono[OF True] mathRound_of_int[of 100] by simp
  with True show ?thesis by (simp add: min_def)
next
  case False
  then have "100 \<le> y" by simp
  then have "100 \<le> mathRound y"
    using mathRound_mono[of 100 y] mathRound_of_int[of 100] by simp
  with False show ?thesis using mathRound_of_int[of 100] by (simp add: min_def)
qed

lemma calculateFuzzyScore_rounds:
  "calculateFuzzyScore a b syns = mathRound (specFuzzyScore a b syns)"
  using mathRound_of_int[of 100] mathRound_of_int[of 95]
  by (simp add: calculateFuzzyScore_def specFuzzyScore_def Let_def synonymHit_iff
      overlapScore_counts lengthPenalty_eq mathRound_min100 del: set_map)

lemma calculateFuzzyScore_range:
  "0 \<le> calculateFuzzyScore a b syns \<and> calculateFuzzyScore a b syns \<le> 100"
proof -
  have "\<And>x::rat. 0 \<le> mathRound (max 0 x)"
    unfolding mathRound_def by (simp add: max_def)
  then show ?thesis by (simp add: calculateFuzzyScore_def Let_def)
qed


lemma findFuzzyMatch_range:
  assumes "findFuzzyMatch db c sc rc = Some m"
  shows "80 \<le> mrConfidence m \<and> mrConfidence m \<le> 100"
proof (cases "selectCandidates db (fuzzyConditions c sc rc)")
  case (Inl e)
  with assms show ?thesis by (simp add: findFuzzyMatch_def)
next
  case (Inr cands)
  show ?thesis
  proof (cases "sortByConfidenceDesc snd (filter (\<lambda>m. snd m \<ge> 80) (map (scoreCandidate c) cands))")
    case Nil
    with assms Inr show ?thesis by (simp add: findFuzzyMatch_def)
  next
    case (Cons best rest)
    with assms Inr have m: "mrConfidence m = snd best"
      by (simp add: findFuzzyMatch_def) (metis MappingResult.select_convs(3))
    have "best \<in> set (sort_key (\<lambda>x. - snd x) (filter (\<lambda>m. snd m \<ge> 80) (map (scoreCandidate c) cands)))"
      using Cons by (simp add: sortByConfidenceDesc_def)
    then have "best \<in> set (filter (\<lambda>m. snd m \<ge> 80) (map (scoreCandidate c) cands))"
      by (simp only: set_sort)
    moreover have "\<forall>x \<in> set (map (scoreCandidate c) cands). snd x \<le> 100"
      by (simp add: scoreCandidate_def calculateFuzzyScore_range)
    ultimately have "80 \<le> snd best \<and> snd best \<le> 100" by auto
    with m show ?thesis by simp
  qed
qed
text \<open>
  C7 as stated fails: for the label \<open>abc\<close> and the candidate \<open>ab\<close> the formula of
  the claim gives 10 - 20/3 = 10/3, and the code returns the integer 3.
\<close>

theorem fuzzy_score_unrounded_counterexample:
  "of_int (calculateFuzzyScore ''abc'' ''ab'' []) \<noteq> specFuzzyScore ''abc'' ''ab'' []"
  by code_simp

text \<open>
  C7, amended. The fuzzy score is the score of the specification (100 on
  case-insensitive equality, 95 on a synonym hit, otherwise 20 points per exact word
  overlap plus 10 per partial overlap minus the length penalty, clamped to [0, 100])
  rounded to the nearest integer, a tie going up; it lies between 0 and 100, and an
  accepted fuzzy match has a confidence between 80 and 100.
\<close>

theorem fuzzy_score_rounded:
  "calculateFuzzyScore label candidate syns = mathRound (specFuzzyScore label candidate syns)
   \<and> 0 \<le> calculateFuzzyScore label candidate syns
   \<and> calculateFuzzyScore label candidate syns \<le> 100
   \<and> (findFuzzyMatch db c sc rc = Some m \<longrightarrow> 80 \<le> mrConfidence m \<and> mrConfidence m \<le> 100)"
  using calculateFuzzyScore_rounds calculateFuzzyScore_range findFuzzyMatch_range by blast

theorem fuzzy_score_rounded_witness:
  "findFuzzyMatch taxonomyStore ''cash'' None None =
     Some \<lparr>mrXbrlTag = ''us-gaap:Cash'', mrTaxonomyFramework = ''US-GAAP'', mrConfidence = 100,
           mrMappingMethod = ''fuzzy_match'', mrTaxonomyConcept = ''Cash'', mrDescription = None\<rparr>
   \<and> calculateFuzzyScore ''abc'' ''ab'' [] = 3
   \<and> specFuzzyScore ''abc'' ''ab'' [] = 10 / 3
   \<and> (80::int) \<le> 100"
proof -
  have f: "findFuzzyMatch taxonomyStore ''cash'' None None =
     Some \<lparr>mrXbrlTag = ''us-gaap:Cash'', mrTaxonomyFramework = ''US-GAAP'', mrConfidence = 100,
           mrMappingMethod = ''fuzzy_match'', mrTaxonomyConcept = ''Cash'', mrDescription = None\<rparr>"
    by code_simp
  have s: "specFuzzyScore ''abc'' ''ab'' [] = 10 / 3" by code_simp
  have r: "mathRound (10 / 3) = 3" by code_simp
  from fuzzy_score_rounded[of "''abc''" "''ab''" "[]" taxonomyStore "''cash''" None None, unfolded f s r]
  show ?thesis using f s by simp
qed

subsection \<open>Staged selection\<close>

lemma sorted_head_max:
  assumes "sortByConfidenceDesc conf xs = b # rest"
  shows "b \<in> set xs \<and> (\<forall>x \<in> set xs. conf x \<le> conf b)"
proof -
  have s: "sorted (map (\<lambda>x. - conf x) (b # rest))"
    using assms sorted_sort_key[of "\<lambda>x. - conf x" xs] by (simp add: sortByConfidenceDesc_def)
  have e: "set (b # rest) = set xs"
    using assms set_sort[of "\<lambda>x. - conf x" xs] by (simp add: sortByConfidenceDesc_def)
  from s have "\<forall>x \<in> set rest. conf x \<le> conf b" by auto
  with e show ?thesis by auto
qed

lemma find_filter_head: "filter P xs = b # ys \<Longrightarrow> find P xs = Some b"
  by (induction xs) (auto split: if_splits)

lemma sorted_head_first:
  assumes "sortByConfidenceDesc conf xs = b # rest"
  shows "find (\<lambda>x. conf x = conf b) xs = Some b"
proof -
  have st: "filter (\<lambda>x. - conf x = - conf b) (sort_key (\<lambda>x. - conf x) xs) =
            filter (\<lambda>x. - conf x = - conf b) xs"
    by (rule sort_key_stable)
  have "filter (\<lambda>x. - conf x = - conf b) (b # rest) = b # filter (\<lambda>x. - conf x = - conf b) rest"
    by simp
  with st assms have "filter (\<lambda>x. conf x = conf b) xs = b # filter (\<lambda>x. conf x = conf b) rest"
    by (simp add: sortByConfidenceDesc_def)
  then show ?thesis by (rule find_filter_head)
qed

lemma selectBestMatch_specHighest: "selectBestMatch ms = specHighest ms"
proof (cases "sortByConfidenceDesc mrConfidence ms")
  case Nil
  then have "ms = []"
    using length_sort[of "\<lambda>x. - mrConfidence x" ms] by (simp add: sortByConfidenceDesc_def)
  then show ?thesis by (simp add: selectBestMatch_def specHighest_def sortByConfidenceDesc_def)
next
  case (Cons b rest)
  from sorted_head_max[OF Cons]
  have mem: "b \<in> set ms" and mx: "\<forall>x \<in> set ms. mrConfidence x \<le> mrConfidence b"
    by auto
  then have ne: "ms \<noteq> []" by auto
  have "Max (set (map mrConfidence ms)) = mrConfidence b"
    using mem mx by (intro Max_eqI) auto
  with sorted_head_first[OF Cons] ne Cons show ?thesis
    by (cases ms) (simp_all add: selectBestMatch_def specHighest_def)
qed

lemma filterBoolean_present: "filterBoolean xs = specPresent xs"
  by (induction xs) (simp_all add: filterBoolean_def specPresent_def map_filter_simps split: option.splits)

lemma meets_specReaches: "meets r t = specReaches r t"
  by (simp add: meets_def specReaches_def split: option.splits)

lemma mapFinancialItem_spec:
  "mapFinancialItem db item sc rc =
   specStagedMatch (findExactMapping db (concept item))
     (findFuzzyMatch db (concept item) sc rc)
     (getAIMapping \<lparr>sourceField = concept item, sourceValue = itemValue item,
                    reqSectorContext = sc, reqReportTypeContext = rc,
                    existingMappings = specPresent [findExactMapping db (concept item),
                       findFuzzyMatch db (concept item) sc rc]\<rparr>)"
  unfolding mapFinancialItem_def specStagedMatch_def Let_def meets_specReaches asMatch_def
    selectBestMatch_specHighest filterBoolean_present
  by (rule refl)

lemma specHighest_Some:
  assumes "specHighest ms = Some b"
  shows "b \<in> set ms \<and> (\<forall>x \<in> set ms. mrConfidence x \<le> mrConfidence b)"
proof -
  from assms obtain rest where "sortByConfidenceDesc mrConfidence ms = b # rest"
    by (cases "sortByConfidenceDesc mrConfidence ms")
       (simp_all add: selectBestMatch_specHighest[symmetric] selectBestMatch_def)
  then show ?thesis by (rule sorted_head_max)
qed

lemma specHighest_None:
  assumes "specHighest ms = None"
  shows "ms = []"
proof -
  from assms have "sortByConfidenceDesc mrConfidence ms = []"
    by (cases "sortByConfidenceDesc mrConfidence ms")
       (simp_all add: selectBestMatch_specHighest[symmetric] selectBestMatch_def)
  then show ?thesis
    using length_sort[of "\<lambda>x. - mrConfidence x" ms] by (simp add: sortByConfidenceDesc_def)
qed

lemma set_specPresent3:
  "set (specPresent [e, f, a]) = {x. e = Some x \<or> f = Some x \<or> a = Some x}"
  by (cases e; cases f; cases a) (auto simp: specPresent_def)

lemma staged_fallback:
  assumes ne: "\<not> specReaches e 95" and nf: "\<not> specReaches f 80" and na: "\<not> specReaches a 70"
  shows "(specStagedMatch e f a = None \<longleftrightarrow>
            (\<forall>x. (e = Some x \<or> f = Some x \<or> a = Some x) \<longrightarrow> mrConfidence x < 60))
       \<and> (\<forall>r. specStagedMatch e f a = Some r \<longrightarrow>
            (\<exists>b. (e = Some b \<or> f = Some b \<or> a = Some b) \<and> 60 \<le> mrConfidence b
                 \<and> (\<forall>x. (e = Some x \<or> f = Some x \<or> a = Some x) \<longrightarrow>
                        mrConfidence x \<le> mrConfidence b)
                 \<and> r = \<lparr>xbrlTag = mrXbrlTag b, taxonomyFramework = mrTaxonomyFramework b,
                         confidence = mrConfidence b, mappingMethod = mrMappingMethod b,
                         synonyms = Some []\<rparr>))"
proof (cases "specHighest (specPresent [e, f, a])")
  case None
  then have "specPresent [e, f, a] = []" by (rule specHighest_None)
  then have "{x. e = Some x \<or> f = Some x \<or> a = Some x} = {}"
    using set_specPresent3[of e f a] by simp
  then have none: "\<forall>x. \<not> (e = Some x \<or> f = Some x \<or> a = Some x)" by blast
  have "specStagedMatch e f a = None"
    using ne nf na None by (simp add: specStagedMatch_def)
  with none show ?thesis by simp
next
  case (Some b)
  from specHighest_Some[OF Some]
  have mem: "e = Some b \<or> f = Some b \<or> a = Some b"
    and mx: "\<forall>x. (e = Some x \<or> f = Some x \<or> a = Some x) \<longrightarrow> mrConfidence x \<le> mrConfidence b"
    using set_specPresent3[of e f a] by auto
  show ?thesis
  proof (cases "60 \<le> mrConfidence b")
    case True
    have "specStagedMatch e f a =
            Some \<lparr>xbrlTag = mrXbrlTag b, taxonomyFramework = mrTaxonomyFramework b,
                  confidence = mrConfidence b, mappingMethod = mrMappingMethod b,
                  synonyms = Some []\<rparr>"
      using ne nf na Some True by (simp add: specStagedMatch_def)
    with mem mx True show ?thesis by (metis linorder_not_less option.distinct(1) option.inject)
  next
    case False
    have "specStagedMatch e f a = None"
      using ne nf na Some False by (simp add: specStagedMatch_def)
    moreover have "\<forall>x. (e = Some x \<or> f = Some x \<or> a = Some x) \<longrightarrow> mrConfidence x < 60"
      using mx False by force
    ultimately show ?thesis by simp
  qed
qed

lemma specReaches_iff: "specReaches r t \<longleftrightarrow> (\<exists>m. r = Some m \<and> t \<le> mrConfidence m)"
  by (cases r) (simp_all add: specReaches_def)

lemma not_specReaches: "(\<forall>x. r = Some x \<longrightarrow> mrConfidence x < t) \<Longrightarrow> \<not> specReaches r t"
  by (cases r) (simp_all add: specReaches_def)

lemma adjustConfidence_ge: "base \<le> 100 \<Longrightarrow> base - 5 \<le> adjustConfidence request base"
  by (simp add: adjustConfidence_def Let_def)

lemma matchPatterns_ge:
  assumes "matchPatterns request field ps = Some m"
    and "list_all (\<lambda>(p, t, fw, c). 85 \<le> c \<and> c \<le> 100) ps"
  shows "80 \<le> mrConfidence m"
  using assms
proof (induction ps)
  case Nil
  then show ?case by simp
next
  case (Cons p ps)
  obtain pat tag fw c where p: "p = (pat, tag, fw, c)" by (cases p)
  show ?case
  proof (cases "strIncludes field pat \<or> strIncludes pat field")
    case True
    with Cons.prems p have "mrConfidence m = adjustConfidence request c" and "85 \<le> c" and "c \<le> 100"
      by auto
    then show ?thesis using adjustConfidence_ge[of c request] by simp
  next
    case False
    with Cons p show ?thesis by simp
  qed
qed

lemma getAIMapping_ge: "getAIMapping request = Some m \<Longrightarrow> 80 \<le> mrConfidence m"
  unfolding getAIMapping_def simulateAIMapping_def
  by (erule matchPatterns_ge) (simp add: mappingPatterns_def)

text \<open>
  C5. For every line item, with the results of the exact, fuzzy and assisted stages
  called e, f and a: the engine returns the staged selection of the specification; that
  is, the exact result (as an exact match) if its confidence is at least 95; otherwise
  the fuzzy result if its confidence is at least 80; otherwise the assisted result if
  its confidence is at least 70; otherwise a candidate of the highest confidence among
  the results of all stages if that confidence is at least 60, reported with the method
  the candidate carries; otherwise no match, and no match is returned exactly when every
  candidate is below 60. No match is a value of the result type, not an exception.
  A fuzzy or assisted result, when there is one, has a confidence of at least 80.
\<close>

theorem mapFinancialItem_staged:
  assumes e: "e = findExactMapping db (concept item)"
    and f: "f = findFuzzyMatch db (concept item) sc rc"
    and a: "a = getAIMapping \<lparr>sourceField = concept item, sourceValue = itemValue item,
                    reqSectorContext = sc, reqReportTypeContext = rc,
                    existingMappings = specPresent [e, f]\<rparr>"
  shows "mapFinancialItem db item sc rc = specStagedMatch e f a
    \<and> (\<forall>m. e = Some m \<and> 95 \<le> mrConfidence m \<longrightarrow>
          mapFinancialItem db item sc rc =
            Some \<lparr>xbrlTag = mrXbrlTag m, taxonomyFramework = mrTaxonomyFramework m,
                  confidence = mrConfidence m, mappingMethod = ''exact_match'',
                  synonyms = Some []\<rparr>)
    \<and> (\<forall>m. (\<forall>x. e = Some x \<longrightarrow> mrConfidence x < 95) \<and> f = Some m \<and> 80 \<le> mrConfidence m \<longrightarrow>
          mapFinancialItem db item sc rc =
            Some \<lparr>xbrlTag = mrXbrlTag m, taxonomyFramework = mrTaxonomyFramework m,
                  confidence = mrConfidence m, mappingMethod = ''fuzzy_match'',
                  synonyms = None\<rparr>)
    \<and> (\<forall>m. (\<forall>x. e = Some x \<longrightarrow> mrConfidence x < 95)
           \<and> (\<forall>x. f = Some x \<longrightarrow> mrConfidence x < 80) \<and> a = Some m \<and> 70 \<le> mrConfidence m \<longrightarrow>
          mapFinancialItem db item sc rc =
            Some \<lparr>xbrlTag = mrXbrlTag m, taxonomyFramework = mrTaxonomyFramework m,
                  confidence = mrConfidence m, mappingMethod = ''ai_assisted'',
                  synonyms = Some []\<rparr>)
    \<and> ((\<forall>x. e = Some x \<longrightarrow> mrConfidence x < 95) \<and> (\<forall>x. f = Some x \<longrightarrow> mrConfidence x < 80)
           \<and> (\<forall>x. a = Some x \<longrightarrow> mrConfidence x < 70) \<longrightarrow>
         (mapFinancialItem db item sc rc = None \<longleftrightarrow>
            (\<forall>x. (e = Some x \<or> f = Some x \<or> a = Some x) \<longrightarrow> mrConfidence x < 60))
       \<and> (\<forall>r. mapFinancialItem db item sc rc = Some r \<longrightarrow>
            (\<exists>b. (e = Some b \<or> f = Some b \<or> a = Some b) \<and> 60 \<le> mrConfidence b
                 \<and> (\<forall>x. (e = Some x \<or> f = Some x \<or> a = Some x) \<longrightarrow>
                        mrConfidence x \<le> mrConfidence b)
                 \<and> r = \<lparr>xbrlTag = mrXbrlTag b, taxonomyFramework = mrTaxonomyFramework b,
                         confidence = mrConfidence b, mappingMethod = mrMappingMethod b,
                         synonyms = Some []\<rparr>)))
    \<and> (\<forall>m. f = Some m \<or> a = Some m \<longrightarrow> 80 \<le> mrConfidence m)"
proof -
  have eq: "mapFinancialItem db item sc rc = specStagedMatch e f a"
    unfolding e f a by (rule mapFinancialItem_spec)
  have c1: "\<forall>m. e = Some m \<and> 95 \<le> mrConfidence m \<longrightarrow>
          specStagedMatch e f a =
            Some \<lparr>xbrlTag = mrXbrlTag m, taxonomyFramework = mrTaxonomyFramework m,
                  confidence = mrConfidence m, mappingMethod = ''exact_match'',
                  synonyms = Some []\<rparr>"
    by (simp add: specStagedMatch_def specReaches_def)
  have c2: "\<forall>m. (\<forall>x. e = Some x \<longrightarrow> mrConfidence x < 95) \<and> f = Some m \<and> 80 \<le> mrConfidence m \<longrightarrow>
          specStagedMatch e f a =
            Some \<lparr>xbrlTag = mrXbrlTag m, taxonomyFramework = mrTaxonomyFramework m,
                  confidence = mrConfidence m, mappingMethod = ''fuzzy_match'',
                  synonyms = None\<rparr>"
  proof (intro allI impI)
    fix m
    assume h: "(\<forall>x. e = Some x \<longrightarrow> mrConfidence x < 95) \<and> f = Some m \<and> 80 \<le> mrConfidence m"
    then have "\<not> specReaches e 95" by (intro not_specReaches) simp
    moreover from h have "specReaches f 80" by (simp add: specReaches_def)
    ultimately show "specStagedMatch e f a =
            Some \<lparr>xbrlTag = mrXbrlTag m, taxonomyFramework = mrTaxonomyFramework m,
                  confidence = mrConfidence m, mappingMethod = ''fuzzy_match'',
                  synonyms = None\<rparr>"
      using h by (simp add: specStagedMatch_def)
  qed
  have c3: "\<forall>m. (\<forall>x. e = Some x \<longrightarrow> mrConfidence x < 95)
           \<and> (\<forall>x. f = Some x \<longrightarrow> mrConfidence x < 80) \<and> a = Some m \<and> 70 \<le> mrConfidence m \<longrightarrow>
          specStagedMatch e f a =
            Some \<lparr>xbrlTag = mrXbrlTag m, taxonomyFramework = mrTaxonomyFramework m,
                  confidence = mrConfidence m, mappingMethod = ''ai_assisted'',
                  synonyms = Some []\<rparr>"
  proof (intro allI impI)
    fix m
    assume h: "(\<forall>x. e = Some x \<longrightarrow> mrConfidence x < 95)
           \<and> (\<forall>x. f = Some x \<longrightarrow> mrConfidence x < 80) \<and> a = Some m \<and> 70 \<le> mrConfidence m"
    then have "\<not> specReaches e 95" by (intro not_specReaches) simp
    moreover from h have "\<not> specReaches f 80" by (intro not_specReaches) simp
    moreover from h have "specReaches a 70" by (simp add: specReaches_def)
    ultimately show "specStagedMatch e f a =
            Some \<lparr>xbrlTag = mrXbrlTag m, taxonomyFramework = mrTaxonomyFramework m,
                  confidence = mrConfidence m, mappingMethod = ''ai_assisted'',
                  synonyms = Some []\<rparr>"
      using h by (simp add: specStagedMatch_def)
  qed
  have c4: "(\<forall>x. e = Some x \<longrightarrow> mrConfidence x < 95) \<and> (\<forall>x. f = Some x \<longrightarrow> mrConfidence x < 80)
           \<and> (\<forall>x. a = Some x \<longrightarrow> mrConfidence x < 70) \<longrightarrow>
         (specStagedMatch e f a = None \<longleftrightarrow>
            (\<forall>x. (e = Some x \<or> f = Some x \<or> a = Some x) \<longrightarrow> mrConfidence x < 60))
       \<and> (\<forall>r. specStagedMatch e f a = Some r \<longrightarrow>
            (\<exists>b. (e = Some b \<or> f = Some b \<or> a = Some b) \<and> 60 \<le> mrConfidence b
                 \<and> (\<forall>x. (e = Some x \<or> f = Some x \<or> a = Some x) \<longrightarrow>
                        mrConfidence x \<le> mrConfidence b)
                 \<and> r = \<lparr>xbrlTag = mrXbrlTag b, taxonomyFramework = mrTaxonomyFramework b,
                         confidence = mrConfidence b, mappingMethod = mrMappingMethod b,
                         synonyms = Some []\<rparr>))"
  proof
    assume h: "(\<forall>x. e = Some x \<longrightarrow> mrConfidence x < 95) \<and> (\<forall>x. f = Some x \<longrightarrow> mrConfidence x < 80)
           \<and> (\<forall>x. a = Some x \<longrightarrow> mrConfidence x < 70)"
    have "\<not> specReaches e 95" using h by (intro not_specReaches) simp
    moreover have "\<not> specReaches f 80" using h by (intro not_specReaches) simp
    moreover have "\<not> specReaches a 70" using h by (intro not_specReaches) simp
    ultimately show "(specStagedMatch e f a = None \<longleftrightarrow>
            (\<forall>x. (e = Some x \<or> f = Some x \<or> a = Some x) \<longrightarrow> mrConfidence x < 60))
       \<and> (\<forall>r. specStagedMatch e f a = Some r \<longrightarrow>
            (\<exists>b. (e = Some b \<or> f = Some b \<or> a = Some b) \<and> 60 \<le> mrConfidence b
                 \<and> (\<forall>x. (e = Some x \<or> f = Some x \<or> a = Some x) \<longrightarrow>
                        mrConfidence x \<le> mrConfidence b)
                 \<and> r = \<lparr>xbrlTag = mrXbrlTag b, taxonomyFramework = mrTaxonomyFramework b,
                         confidence = mrConfidence b, mappingMethod = mrMappingMethod b,
                         synonyms = Some []\<rparr>))"
      by (rule staged_fallback)
  qed
  have c5: "\<forall>m. f = Some m \<or> a = Some m \<longrightarrow> 80 \<le> mrConfidence m"
    using findFuzzyMatch_range[of db "concept item" sc rc] getAIMapping_ge
    unfolding f a by blast
  show ?thesis
    unfolding eq using c1 c2 c3 c4 c5 by (intro conjI) (rule refl, assumption+)
qed

theorem mapFinancialItem_staged_witness:
  "mapFinancialItem learnedStore (lineItem ''Cash'') None None =
     Some \<lparr>xbrlTag = ''us-gaap:Cash'', taxonomyFramework = ''US-GAAP'', confidence = 97,
           mappingMethod = ''exact_match'', synonyms = Some []\<rparr>
   \<and> mapFinancialItem taxonomyStore (lineItem ''cash'') None None =
     Some \<lparr>xbrlTag = ''us-gaap:Cash'', taxonomyFramework = ''US-GAAP'', confidence = 100,
           mappingMethod = ''fuzzy_match'', synonyms = None\<rparr>
   \<and> mapFinancialItem learnedStore (lineItem ''Revenue'') None None =
     Some \<lparr>xbrlTag = ''us-gaap:Revenues'', taxonomyFramework = ''US-GAAP'', confidence = 95,
           mappingMethod = ''ai_assisted'', synonyms = Some []\<rparr>
   \<and> mapFinancialItem goodwillStore (lineItem ''Goodwill'') None None =
     Some \<lparr>xbrlTag = ''us-gaap:Goodwill'', taxonomyFramework = ''US-GAAP'', confidence = 75,
           mappingMethod = ''manual'', synonyms = Some []\<rparr>
   \<and> mapFinancialItem learnedStore (lineItem ''Goodwill'') None None = None"
proof -
  have s1: "specStagedMatch (findExactMapping learnedStore ''Cash'')
              (findFuzzyMatch learnedStore ''Cash'' None None)
              (getAIMapping \<lparr>sourceField = ''Cash'', sourceValue = JNum (Fin 1000),
                 reqSectorContext = None, reqReportTypeContext = None,
                 existingMappings = specPresent [findExactMapping learnedStore ''Cash'',
                   findFuzzyMatch learnedStore ''Cash'' None None]\<rparr>) =
     Some \<lparr>xbrlTag = ''us-gaap:Cash'', taxonomyFramework = ''US-GAAP'', confidence = 97,
           mappingMethod = ''exact_match'', synonyms = Some []\<rparr>"
    by code_simp
  have s2: "specStagedMatch (findExactMapping taxonomyStore ''cash'')
              (findFuzzyMatch taxonomyStore ''cash'' None None)
              (getAIMapping \<lparr>sourceField = ''cash'', sourceValue = JNum (Fin 1000),
                 reqSectorContext = None, reqReportTypeContext = None,
                 existingMappings = specPresent [findExactMapping taxonomyStore ''cash'',
                   findFuzzyMatch taxonomyStore ''cash'' None None]\<rparr>) =
     Some \<lparr>xbrlTag = ''us-gaap:Cash'', taxonomyFramework = ''US-GAAP'', confidence = 100,
           mappingMethod = ''fuzzy_match'', synonyms = None\<rparr>"
    by code_simp
  have s3: "specStagedMatch (findExactMapping learnedStore ''Revenue'')
              (findFuzzyMatch learnedStore ''Revenue'' None None)
              (getAIMapping \<lparr>sourceField = ''Revenue'', sourceValue = JNum (Fin 1000),
                 reqSectorContext = None, reqReportTypeContext = None,
                 existingMappings = specPresent [findExactMapping learnedStore ''Revenue'',
                   findFuzzyMatch learnedStore ''Revenue'' None None]\<rparr>) =
     Some \<lparr>xbrlTag = ''us-gaap:Revenues'', taxonomyFramework = ''US-GAAP'', confidence = 95,
           mappingMethod = ''ai_assisted'', synonyms = Some []\<rparr>"
    by code_simp
  have s4: "specStagedMatch (findExactMapping goodwillStore ''Goodwill'')
              (findFuzzyMatch goodwillStore ''Goodwill'' None None)
              (getAIMapping \<lparr>sourceField = ''Goodwill'', sourceValue = JNum (Fin 1000),
                 reqSectorContext = None, reqReportTypeContext = None,
                 existingMappings = specPresent [findExactMapping goodwillStore ''Goodwill'',
                   findFuzzyMatch goodwillStore ''Goodwill'' None None]\<rparr>) =
     Some \<lparr>xbrlTag = ''us-gaap:Goodwill'', taxonomyFramework = ''US-GAAP'', confidence = 75,
           mappingMethod = ''manual'', synonyms = Some []\<rparr>"
    by code_simp
  have s5: "specStagedMatch (findExactMapping learnedStore ''Goodwill'')
              (findFuzzyMatch learnedStore ''Goodwill'' None None)
              (getAIMapping \<lparr>sourceField = ''Goodwill'', sourceValue = JNum (Fin 1000),
                 reqSectorContext = None, reqReportTypeContext = None,
                 existingMappings = specPresent [findExactMapping learnedStore ''Goodwill'',
                   findFuzzyMatch learnedStore ''Goodwill'' None None]\<rparr>) = None"
    by code_simp
  have sel: "\<And>l. concept (lineItem l) = l" "\<And>l. itemValue (lineItem l) = JNum (Fin 1000)"
    by (simp_all add: lineItem_def)
  show ?thesis
    unfolding
      mapFinancialItem_staged[where db=learnedStore and item="lineItem ''Cash''" and sc=None and rc=None,
        OF refl refl refl, THEN conjunct1]
      mapFinancialItem_staged[where db=taxonomyStore and item="lineItem ''cash''" and sc=None and rc=None,
        OF refl refl refl, THEN conjunct1]
      mapFinancialItem_staged[where db=learnedStore and item="lineItem ''Revenue''" and sc=None and rc=None,
        OF refl refl refl, THEN conjunct1]
      mapFinancialItem_staged[where db=goodwillStore and item="lineItem ''Goodwill''" and sc=None and rc=None,
        OF refl refl refl, THEN conjunct1]
      mapFinancialItem_staged[where db=learnedStore and item="lineItem ''Goodwill''" and sc=None and rc=None,
        OF refl refl refl, THEN conjunct1]
      sel s1 s2 s3 s4 s5
    by simp
qed


subsection \<open>The exact stage\<close>

text \<open>
  C2 as stated fails: a learned mapping of confidence 97 is accepted by the exact stage
  and returned with confidence 97, not 100.
\<close>

theorem exact_stage_confidence_counterexample:
  "mapFinancialItem learnedStore cashItem None None =
     Some \<lparr>xbrlTag = ''us-gaap:Cash'', taxonomyFramework = ''US-GAAP'', confidence = 97,
           mappingMethod = ''exact_match'', synonyms = Some []\<rparr>"
  by (simp add: mapFinancialItem_def findExactMapping_def learnedStore_def cashItem_def
      meets_def asMatch_def)

lemma findExactMapping_learned:
  "selectMappings db c = Inr (mp # mps) \<Longrightarrow>
   findExactMapping db c =
     Some \<lparr>mrXbrlTag = mapXbrlTag mp, mrTaxonomyFramework = mapTaxonomyFramework mp,
           mrConfidence = mapConfidence mp, mrMappingMethod = mapMappingMethod mp,
           mrTaxonomyConcept = mapConcept mp, mrDescription = mapDescription mp\<rparr>"
  by (simp add: findExactMapping_def)

lemma findExactMapping_direct:
  "selectMappings db c = Inr [] \<Longrightarrow> selectConcepts db c = Inr (t # ts) \<Longrightarrow>
   findExactMapping db c =
     Some \<lparr>mrXbrlTag = taxXbrlTag t, mrTaxonomyFramework = taxTaxonomyFramework t,
           mrConfidence = 100, mrMappingMethod = ''exact_match'',
           mrTaxonomyConcept = taxConcept t, mrDescription = taxDescription t\<rparr>"
  by (simp add: findExactMapping_def)

lemma findExactMapping_cases:
  assumes "findExactMapping db c = Some m"
  shows "(\<exists>mp mps. selectMappings db c = Inr (mp # mps) \<and> mrConfidence m = mapConfidence mp)
       \<or> (selectMappings db c = Inr [] \<and> (\<exists>t ts. selectConcepts db c = Inr (t # ts))
            \<and> mrConfidence m = 100)"
proof (cases "selectMappings db c")
  case (Inl e)
  with assms show ?thesis by (simp add: findExactMapping_def)
next
  case (Inr mappings)
  show ?thesis
  proof (cases mappings)
    case (Cons mp mps)
    with Inr assms findExactMapping_learned[of db c mp mps] show ?thesis by auto
  next
    case Nil
    show ?thesis
    proof (cases "selectConcepts db c")
      case (Inl e)
      with Inr Nil assms show ?thesis by (simp add: findExactMapping_def)
    next
      case r: (Inr concepts)
      show ?thesis
      proof (cases concepts)
        case Nil2: Nil
        with r Inr Nil assms show ?thesis by (simp add: findExactMapping_def)
      next
        case (Cons t ts)
        with r Inr Nil assms findExactMapping_direct[of db c t ts] show ?thesis by auto
      qed
    qed
  qed
qed

lemma exact_stage_returns:
  "findExactMapping db (concept item) = Some m \<Longrightarrow> 95 \<le> mrConfidence m \<Longrightarrow>
   mapFinancialItem db item sc rc =
     Some \<lparr>xbrlTag = mrXbrlTag m, taxonomyFramework = mrTaxonomyFramework m,
           confidence = mrConfidence m, mappingMethod = ''exact_match'', synonyms = Some []\<rparr>"
  by (simp add: mapFinancialItem_def meets_def asMatch_def)

text \<open>
  C2, amended. Whenever the engine returns a match accepted at the exact stage, that
  match has method \<open>exact_match\<close> and a confidence of at least 95, namely: the
  stored confidence of the learned mapping for the label when there is one (whatever the
  taxonomy table holds for the label), and exactly 100 when there is no learned mapping
  and the label is found in the taxonomy table itself. The exact stage is accepted in
  these two cases only.
\<close>

theorem exact_stage_match:
  "(\<forall>mp mps. selectMappings db (concept item) = Inr (mp # mps) \<and> 95 \<le> mapConfidence mp \<longrightarrow>
      mapFinancialItem db item sc rc =
        Some \<lparr>xbrlTag = mapXbrlTag mp, taxonomyFramework = mapTaxonomyFramework mp,
              confidence = mapConfidence mp, mappingMethod = ''exact_match'',
              synonyms = Some []\<rparr>)
   \<and> (\<forall>t ts. selectMappings db (concept item) = Inr []
          \<and> selectConcepts db (concept item) = Inr (t # ts) \<longrightarrow>
      mapFinancialItem db item sc rc =
        Some \<lparr>xbrlTag = taxXbrlTag t, taxonomyFramework = taxTaxonomyFramework t,
              confidence = 100, mappingMethod = ''exact_match'', synonyms = Some []\<rparr>)
   \<and> (meets (findExactMapping db (concept item)) 95 \<longrightarrow>
        ((\<exists>mp mps. selectMappings db (concept item) = Inr (mp # mps) \<and> 95 \<le> mapConfidence mp)
         \<or> (selectMappings db (concept item) = Inr []
             \<and> (\<exists>t ts. selectConcepts db (concept item) = Inr (t # ts))))
        \<and> (\<exists>m. findExactMapping db (concept item) = Some m
               \<and> mapFinancialItem db item sc rc = Some (asMatch m ''exact_match'' (Some []))
               \<and> confidence (asMatch m ''exact_match'' (Some [])) = mrConfidence m
               \<and> 95 \<le> mrConfidence m
               \<and> mappingMethod (asMatch m ''exact_match'' (Some [])) = ''exact_match''))"
proof (intro conjI allI impI)
  fix mp mps
  assume h: "selectMappings db (concept item) = Inr (mp # mps) \<and> 95 \<le> mapConfidence mp"
  then show "mapFinancialItem db item sc rc =
        Some \<lparr>xbrlTag = mapXbrlTag mp, taxonomyFramework = mapTaxonomyFramework mp,
              confidence = mapConfidence mp, mappingMethod = ''exact_match'',
              synonyms = Some []\<rparr>"
    using exact_stage_returns[OF findExactMapping_learned, of db item mp mps sc rc] by simp
next
  fix t ts
  assume h: "selectMappings db (concept item) = Inr []
          \<and> selectConcepts db (concept item) = Inr (t # ts)"
  then show "mapFinancialItem db item sc rc =
        Some \<lparr>xbrlTag = taxXbrlTag t, taxonomyFramework = taxTaxonomyFramework t,
              confidence = 100, mappingMethod = ''exact_match'', synonyms = Some []\<rparr>"
    using exact_stage_returns[OF findExactMapping_direct, of db item t ts sc rc] by simp
next
  assume h: "meets (findExactMapping db (concept item)) 95"
  then obtain m where m: "findExactMapping db (concept item) = Some m" and c: "95 \<le> mrConfidence m"
    by (cases "findExactMapping db (concept item)") (simp_all add: meets_def)
  from findExactMapping_cases[OF m] c
  show "(\<exists>mp mps. selectMappings db (concept item) = Inr (mp # mps) \<and> 95 \<le> mapConfidence mp)
         \<or> (selectMappings db (concept item) = Inr []
             \<and> (\<exists>t ts. selectConcepts db (concept item) = Inr (t # ts)))"
    by auto
  show "\<exists>m. findExactMapping db (concept item) = Some m
               \<and> mapFinancialItem db item sc rc = Some (asMatch m ''exact_match'' (Some []))
               \<and> confidence (asMatch m ''exact_match'' (Some [])) = mrConfidence m
               \<and> 95 \<le> mrConfidence m
               \<and> mappingMethod (asMatch m ''exact_match'' (Some [])) = ''exact_match''"
    using m c exact_stage_returns[OF m c, of sc rc] by (simp add: asMatch_def)
qed

theorem exact_stage_match_witness:
  "selectMappings bothStore (concept (lineItem ''Cash'')) =
     Inr [\<lparr>mapXbrlTag = ''ifrs:CashLearned'', mapConcept = ''Cash on hand'',
           mapDescription = None, mapConfidence = 97, mapMappingMethod = ''manual'',
           mapTaxonomyFramework = ''IFRS''\<rparr>]
   \<and> selectConcepts bothStore (concept (lineItem ''Cash'')) = Inr [cashRow]
   \<and> mapFinancialItem bothStore (lineItem ''Cash'') None None =
       Some \<lparr>xbrlTag = ''ifrs:CashLearned'', taxonomyFramework = ''IFRS'', confidence = 97,
             mappingMethod = ''exact_match'', synonyms = Some []\<rparr>
   \<and> selectMappings taxonomyStore (concept (lineItem ''Cash'')) = Inr []
   \<and> selectConcepts taxonomyStore (concept (lineItem ''Cash'')) = Inr [cashRow]
   \<and> mapFinancialItem taxonomyStore (lineItem ''Cash'') None None =
       Some \<lparr>xbrlTag = ''us-gaap:Cash'', taxonomyFramework = ''US-GAAP'', confidence = 100,
             mappingMethod = ''exact_match'', synonyms = Some []\<rparr>
   \<and> meets (findExactMapping bothStore (concept (lineItem ''Cash''))) 95"
proof -
  have b1: "selectMappings bothStore (concept (lineItem ''Cash'')) =
     Inr [\<lparr>mapXbrlTag = ''ifrs:CashLearned'', mapConcept = ''Cash on hand'',
           mapDescription = None, mapConfidence = 97, mapMappingMethod = ''manual'',
           mapTaxonomyFramework = ''IFRS''\<rparr>]"
    by (simp add: bothStore_def lineItem_def)
  have b2: "selectConcepts bothStore (concept (lineItem ''Cash'')) = Inr [cashRow]"
    by (simp add: bothStore_def lineItem_def)
  have t1: "selectMappings taxonomyStore (concept (lineItem ''Cash'')) = Inr []"
    by (simp add: taxonomyStore_def lineItem_def)
  have t2: "selectConcepts taxonomyStore (concept (lineItem ''Cash'')) = Inr [cashRow]"
    by (simp add: taxonomyStore_def lineItem_def)
  have m: "meets (findExactMapping bothStore (concept (lineItem ''Cash''))) 95"
    by (simp add: findExactMapping_learned[OF b1] meets_def)
  from exact_stage_match[where db=bothStore and item="lineItem ''Cash''" and sc=None and rc=None,
      THEN conjunct1, rule_format, OF conjI, OF b1]
  have r1: "mapFinancialItem bothStore (lineItem ''Cash'') None None =
       Some \<lparr>xbrlTag = ''ifrs:CashLearned'', taxonomyFramework = ''IFRS'', confidence = 97,
             mappingMethod = ''exact_match'', synonyms = Some []\<rparr>"
    by simp
  from exact_stage_match[where db=taxonomyStore and item="lineItem ''Cash''" and sc=None and rc=None,
      THEN conjunct2, THEN conjunct1, rule_format, OF conjI, OF t1 t2]
  have r2: "mapFinancialItem taxonomyStore (lineItem ''Cash'') None None =
       Some \<lparr>xbrlTag = ''us-gaap:Cash'', taxonomyFramework = ''US-GAAP'', confidence = 100,
             mappingMethod = ''exact_match'', synonyms = Some []\<rparr>"
    by (simp add: cashRow_def)
  from b1 b2 r1 t1 t2 r2 m show ?thesis by (intro conjI)
qed

section \<open>Properties of the value sanitization\<close>

lemmas sanitize_defs = sanitizeValue_def parseFloat_def stripFormatting_def isWhitespace_def
  isDigit_def digitsValue_def pow10_def exponentOf_def isNaN_def negate_def endsWith_def
  slice_def Let_def

lemma stripFormatting_no_parenthesis:
  "\<not> startsWith (stripFormatting s) ''(''"
proof (cases "stripFormatting s")
  case Nil
  then show ?thesis by simp
next
  case (Cons c cs)
  then have "c \<in> set (stripFormatting s)" by simp
  then have "c \<noteq> CHR ''(''" by (simp add: stripFormatting_def)
  with Cons show ?thesis by simp
qed

text \<open>
  C6. The claim holds for the stripping of symbols, for booleans, for other strings and
  for null, undefined and empty values, but not for parenthesized numbers: the cleaned
  value never starts with a parenthesis, so the branch that negates is never taken, and
  \<open>(500)\<close> is read as 500; an item made from it carries 500. A leading minus sign is
  the only way to a negative number.
\<close>

theorem sanitizeValue_parenthesized:
  "sanitizeValue (JStr ''(500)'') = JNum (Fin 500)
   \<and> map_option itemValue (createFinancialItem ''Net loss'' (JStr ''(500)'') 3 None)
       = Some (JNum (Fin 500))
   \<and> \<not> startsWith (stripFormatting s) ''(''
   \<and> sanitizeValue (JStr ''-500'') = JNum (Fin (- 500))
   \<and> sanitizeValue (JStr ''$1,234.50'') = JNum (Fin (2469 / 2))
   \<and> sanitizeValue (JStr ''TRUE'') = JBool True
   \<and> sanitizeValue (JStr ''false'') = JBool False
   \<and> sanitizeValue (JStr ''n/a'') = JStr ''n/a''
   \<and> sanitizeValue JNull = JNull \<and> sanitizeValue JUndefined = JNull
   \<and> sanitizeValue (JStr []) = JNull
   \<and> createFinancialItem c JNull row col = None
   \<and> createFinancialItem c JUndefined row col = None
   \<and> createFinancialItem c (JStr []) row col = None"
proof -
  have a: "sanitizeValue (JStr ''(500)'') = JNum (Fin 500)" by (simp add: sanitize_defs)
  have b: "map_option itemValue (createFinancialItem ''Net loss'' (JStr ''(500)'') 3 None)
       = Some (JNum (Fin 500))"
    by (simp add: createFinancialItem_def a)
  have d: "sanitizeValue (JStr ''-500'') = JNum (Fin (- 500))" by (simp add: sanitize_defs)
  have e: "sanitizeValue (JStr ''$1,234.50'') = JNum (Fin (2469 / 2))"
    by (simp add: sanitize_defs)
  have f: "sanitizeValue (JStr ''TRUE'') = JBool True" by code_simp
  have g: "sanitizeValue (JStr ''false'') = JBool False" by code_simp
  have h: "sanitizeValue (JStr ''n/a'') = JStr ''n/a''" by code_simp
  have n: "sanitizeValue JNull = JNull" "sanitizeValue JUndefined = JNull"
    "sanitizeValue (JStr []) = JNull"
    by (simp_all add: sanitizeValue_def)
  have i: "createFinancialItem c JNull row col = None"
    "createFinancialItem c JUndefined row col = None"
    "createFinancialItem c (JStr []) row col = None"
    by (simp_all add: createFinancialItem_def n)
  from a b d e f g h n i stripFormatting_no_parenthesis[of s] show ?thesis by (intro conjI)
qed

section \<open>Properties of the job queue\<close>

lemma updateJob_found:
  "jobs st jid = Some row \<Longrightarrow>
   updateJob jid d now st =
     Inr (mapDbJobToJob (applyUpdate d now row),
          st\<lparr>jobs := (jobs st)(jid \<mapsto> applyUpdate d now row)\<rparr>)"
  by (simp add: updateJob_def Let_def)

lemma markJobAsFailed_retry:
  assumes "jobs st jid = Some row" and "orZero (dbRetryCount row) < 3"
  shows "markJobAsFailed jid msg now st =
     Inr (Some (mapDbJobToJob (row\<lparr>dbStatus := ''pending'', dbProgress := Some 0,
              dbErrorMessage := Some (''Retrying (attempt '' @ showInt (orZero (dbRetryCount row) + 1)
                                       @ ''/'' @ showInt MAX_RETRIES @ '')''),
              dbRetryCount := Some (orZero (dbRetryCount row) + 1), dbUpdatedAt := now\<rparr>)),
          \<lparr>jobs = (jobs st)(jid \<mapsto> row\<lparr>dbStatus := ''pending'', dbProgress := Some 0,
              dbErrorMessage := Some (''Retrying (attempt '' @ showInt (orZero (dbRetryCount row) + 1)
                                       @ ''/'' @ showInt MAX_RETRIES @ '')''),
              dbRetryCount := Some (orZero (dbRetryCount row) + 1), dbUpdatedAt := now\<rparr>),
           timers = timers st @ [(5000 * (orZero (dbRetryCount row) + 1), jid)]\<rparr>)"
  using assms
  by (simp add: markJobAsFailed_def getJob_def scheduleRetry_def updateJob_found
      applyUpdate_def noUpdate_def overwrite_def overwriteOpt_def mapDbJobToJob_def
      MAX_RETRIES_def RETRY_DELAY_MS_def Let_def)

lemma markJobAsFailed_final:
  assumes "jobs st jid = Some row" and "3 \<le> orZero (dbRetryCount row)"
  shows "markJobAsFailed jid msg now st =
     Inr (Some (mapDbJobToJob (row\<lparr>dbStatus := ''failed'', dbErrorMessage := Some msg,
              dbCompletedAt := Some now, dbUpdatedAt := now\<rparr>)),
          st\<lparr>jobs := (jobs st)(jid \<mapsto> row\<lparr>dbStatus := ''failed'', dbErrorMessage := Some msg,
              dbCompletedAt := Some now, dbUpdatedAt := now\<rparr>)\<rparr>)"
  using assms
  by (simp add: markJobAsFailed_def getJob_def updateJob_found
      applyUpdate_def noUpdate_def overwrite_def overwriteOpt_def mapDbJobToJob_def
      MAX_RETRIES_def Let_def)

lemma failedAttempt_retry:
  assumes "jobs st jid = Some row" and "orZero (dbRetryCount row) < 3"
  shows "\<exists>row'. jobs (failedAttempt jid msg now st) jid = Some row'
           \<and> dbStatus row' = ''pending'' \<and> dbProgress row' = Some 0
           \<and> dbRetryCount row' = Some (orZero (dbRetryCount row) + 1)
           \<and> timers (failedAttempt jid msg now st)
               = timers st @ [(5000 * (orZero (dbRetryCount row) + 1), jid)]"
proof -
  let ?d = "noUpdate\<lparr>udStatus := Some ''processing'', udProgress := Some 0\<rparr>"
  let ?st1 = "st\<lparr>jobs := (jobs st)(jid \<mapsto> applyUpdate ?d now row)\<rparr>"
  have r1: "jobs ?st1 jid = Some (applyUpdate ?d now row)" by simp
  have c1: "orZero (dbRetryCount (applyUpdate ?d now row)) = orZero (dbRetryCount row)"
    by (simp add: applyUpdate_def noUpdate_def overwriteOpt_def Let_def)
  have "failedAttempt jid msg now st =
          (case markJobAsFailed jid msg now ?st1 of Inl _ \<Rightarrow> ?st1 | Inr (_, st') \<Rightarrow> st')"
    by (simp add: failedAttempt_def updateJob_found[OF assms(1)])
  then show ?thesis
    using assms(2) by (simp add: markJobAsFailed_retry[OF r1] c1)
qed

lemma failedAttempt_final:
  assumes "jobs st jid = Some row" and "3 \<le> orZero (dbRetryCount row)"
  shows "\<exists>row'. jobs (failedAttempt jid msg now st) jid = Some row'
           \<and> dbStatus row' = ''failed'' \<and> dbErrorMessage row' = Some msg
           \<and> dbRetryCount row' = dbRetryCount row \<and> dbCompletedAt row' = Some now
           \<and> timers (failedAttempt jid msg now st) = timers st"
proof -
  let ?d = "noUpdate\<lparr>udStatus := Some ''processing'', udProgress := Some 0\<rparr>"
  let ?st1 = "st\<lparr>jobs := (jobs st)(jid \<mapsto> applyUpdate ?d now row)\<rparr>"
  have r1: "jobs ?st1 jid = Some (applyUpdate ?d now row)" by simp
  have c1: "dbRetryCount (applyUpdate ?d now row) = dbRetryCount row"
    by (simp add: applyUpdate_def noUpdate_def overwriteOpt_def Let_def)
  have "failedAttempt jid msg now st =
          (case markJobAsFailed jid msg now ?st1 of Inl _ \<Rightarrow> ?st1 | Inr (_, st') \<Rightarrow> st')"
    by (simp add: failedAttempt_def updateJob_found[OF assms(1)])
  then show ?thesis
    using assms(2) by (simp add: markJobAsFailed_final[OF r1] c1)
qed

lemma requestRetry_at_ceiling:
  assumes "jobs st jid = Some row" and "dbStatus row = ''failed''" and "3 \<le> orZero (dbRetryCount row)"
  shows "requestRetry jid now st = (Rejected 400 ''Maximum retry limit reached'', st)"
  using assms by (simp add: requestRetry_def getJob_def mapDbJobToJob_def)

lemma requestRetry_not_failed:
  assumes "jobs st jid = Some row" and "dbStatus row \<noteq> ''failed''"
  shows "requestRetry jid now st = (Rejected 400 ''Can only retry failed jobs'', st)"
  using assms by (simp add: requestRetry_def getJob_def mapDbJobToJob_def)

text \<open>
  C4 as stated fails in its last part: a new job whose first three attempts fail is
  pending again with retry count 3, not failed.
\<close>

theorem three_failures_counterexample:
  "map_option jobStatus (getJob ''job-1''
     (failedAttempt ''job-1'' ''third'' 30
       (failedAttempt ''job-1'' ''second'' 20
         (failedAttempt ''job-1'' ''first'' 10 freshQueue)))) = Some ''pending''
   \<and> map_option jobRetryCount (getJob ''job-1''
     (failedAttempt ''job-1'' ''third'' 30
       (failedAttempt ''job-1'' ''second'' 20
         (failedAttempt ''job-1'' ''first'' 10 freshQueue)))) = Some 3"
  by code_simp

text \<open>
  C4, amended. For a job that exists, a failure reported to \<open>markJobAsFailed\<close>:
  while the retry count is below 3, puts the job back to \<open>pending\<close> with progress 0
  and the retry count incremented by one, and starts a timer of 5000 ms times the new
  retry count; once the retry count has reached 3, marks the job \<open>failed\<close> for good
  with the causing error message and the completion time, starts no timer, and a retry
  request is then rejected. So a new job whose attempts all fail is retried three times
  and becomes \<open>failed\<close> at its fourth failure, with retry count 3 and the message of
  that failure; after three failures it is still pending.
\<close>

theorem retry_policy:
  assumes row: "jobs st jid = Some row"
  shows "(orZero (dbRetryCount row) < 3 \<longrightarrow>
           (\<exists>j st'. markJobAsFailed jid msg now st = Inr (Some j, st')
              \<and> getJob jid st' = Some j
              \<and> jobStatus j = ''pending'' \<and> jobProgress j = 0
              \<and> jobRetryCount j = orZero (dbRetryCount row) + 1
              \<and> timers st' = timers st @ [(5000 * (orZero (dbRetryCount row) + 1), jid)]))
       \<and> (3 \<le> orZero (dbRetryCount row) \<longrightarrow>
           (\<exists>j st'. markJobAsFailed jid msg now st = Inr (Some j, st')
              \<and> getJob jid st' = Some j
              \<and> jobStatus j = ''failed''
              \<and> jobErrorMessage j = (if msg = [] then None else Some msg)
              \<and> jobRetryCount j = orZero (dbRetryCount row)
              \<and> jobCompletedAt j = Some now
              \<and> timers st' = timers st
              \<and> requestRetry jid later st' = (Rejected 400 ''Maximum retry limit reached'', st')))
       \<and> (dbRetryCount row = Some 0 \<longrightarrow>
            map_option jobStatus (getJob jid
              (failedAttempt jid m3 t3 (failedAttempt jid m2 t2 (failedAttempt jid m1 t1 st))))
              = Some ''pending''
          \<and> map_option jobRetryCount (getJob jid
              (failedAttempt jid m3 t3 (failedAttempt jid m2 t2 (failedAttempt jid m1 t1 st))))
              = Some 3
          \<and> map_option jobStatus (getJob jid
              (failedAttempt jid m4 t4
                (failedAttempt jid m3 t3 (failedAttempt jid m2 t2 (failedAttempt jid m1 t1 st)))))
              = Some ''failed''
          \<and> map_option jobRetryCount (getJob jid
              (failedAttempt jid m4 t4
                (failedAttempt jid m3 t3 (failedAttempt jid m2 t2 (failedAttempt jid m1 t1 st)))))
              = Some 3
          \<and> map_option jobErrorMessage (getJob jid
              (failedAttempt jid m4 t4
                (failedAttempt jid m3 t3 (failedAttempt jid m2 t2 (failedAttempt jid m1 t1 st)))))
              = Some (if m4 = [] then None else Some m4)
          \<and> timers (failedAttempt jid m4 t4
                (failedAttempt jid m3 t3 (failedAttempt jid m2 t2 (failedAttempt jid m1 t1 st))))
              = timers st @ [(5000, jid), (10000, jid), (15000, jid)]
          \<and> fst (requestRetry jid later
              (failedAttempt jid m4 t4
                (failedAttempt jid m3 t3 (failedAttempt jid m2 t2 (failedAttempt jid m1 t1 st)))))
              = Rejected 400 ''Maximum retry limit reached'')"
proof (intro conjI impI)
  assume lt: "orZero (dbRetryCount row) < 3"
  show "\<exists>j st'. markJobAsFailed jid msg now st = Inr (Some j, st')
              \<and> getJob jid st' = Some j
              \<and> jobStatus j = ''pending'' \<and> jobProgress j = 0
              \<and> jobRetryCount j = orZero (dbRetryCount row) + 1
              \<and> timers st' = timers st @ [(5000 * (orZero (dbRetryCount row) + 1), jid)]"
    unfolding markJobAsFailed_retry[OF row lt]
    by (simp add: getJob_def mapDbJobToJob_def orZero_def)
next
  assume ge: "3 \<le> orZero (dbRetryCount row)"
  let ?row' = "row\<lparr>dbStatus := ''failed'', dbErrorMessage := Some msg,
              dbCompletedAt := Some now, dbUpdatedAt := now\<rparr>"
  let ?st' = "st\<lparr>jobs := (jobs st)(jid \<mapsto> ?row')\<rparr>"
  have r: "jobs ?st' jid = Some ?row'" by simp
  have rej: "requestRetry jid later ?st' = (Rejected 400 ''Maximum retry limit reached'', ?st')"
    using ge by (intro requestRetry_at_ceiling[OF r]) simp_all
  show "\<exists>j st'. markJobAsFailed jid msg now st = Inr (Some j, st')
              \<and> getJob jid st' = Some j
              \<and> jobStatus j = ''failed''
              \<and> jobErrorMessage j = (if msg = [] then None else Some msg)
              \<and> jobRetryCount j = orZero (dbRetryCount row)
              \<and> jobCompletedAt j = Some now
              \<and> timers st' = timers st
              \<and> requestRetry jid later st' = (Rejected 400 ''Maximum retry limit reached'', st')"
    unfolding markJobAsFailed_final[OF row ge]
    using rej by (simp add: getJob_def mapDbJobToJob_def orUndefined_def)
next
  assume z: "dbRetryCount row = Some 0"
  let ?s1 = "failedAttempt jid m1 t1 st"
  let ?s2 = "failedAttempt jid m2 t2 ?s1"
  let ?s3 = "failedAttempt jid m3 t3 ?s2"
  let ?s4 = "failedAttempt jid m4 t4 ?s3"
  from failedAttempt_retry[OF row, of m1 t1] z obtain r1 where
    r1: "jobs ?s1 jid = Some r1" "dbRetryCount r1 = Some 1"
      "timers ?s1 = timers st @ [(5000, jid)]"
    by (auto simp: orZero_def)
  from failedAttempt_retry[OF r1(1), of m2 t2] r1(2,3) obtain r2 where
    r2: "jobs ?s2 jid = Some r2" "dbRetryCount r2 = Some 2"
      "timers ?s2 = timers st @ [(5000, jid), (10000, jid)]"
    by (auto simp: orZero_def)
  from failedAttempt_retry[OF r2(1), of m3 t3] r2(2,3) obtain r3 where
    r3: "jobs ?s3 jid = Some r3" "dbStatus r3 = ''pending''" "dbRetryCount r3 = Some 3"
      "timers ?s3 = timers st @ [(5000, jid), (10000, jid), (15000, jid)]"
    by (auto simp: orZero_def)
  from failedAttempt_final[OF r3(1), of m4 t4] r3(3,4) obtain r4 where
    r4: "jobs ?s4 jid = Some r4" "dbStatus r4 = ''failed''" "dbErrorMessage r4 = Some m4"
      "dbRetryCount r4 = Some 3"
      "timers ?s4 = timers st @ [(5000, jid), (10000, jid), (15000, jid)]"
    by (auto simp: orZero_def)
  show "map_option jobStatus (getJob jid ?s3) = Some ''pending''"
    using r3 by (simp add: getJob_def mapDbJobToJob_def)
  show "map_option jobRetryCount (getJob jid ?s3) = Some 3"
    using r3 by (simp add: getJob_def mapDbJobToJob_def orZero_def)
  show "map_option jobStatus (getJob jid ?s4) = Some ''failed''"
    using r4 by (simp add: getJob_def mapDbJobToJob_def)
  show "map_option jobRetryCount (getJob jid ?s4) = Some 3"
    using r4 by (simp add: getJob_def mapDbJobToJob_def orZero_def)
  show "map_option jobErrorMessage (getJob jid ?s4) = Some (if m4 = [] then None else Some m4)"
    using r4 by (simp add: getJob_def mapDbJobToJob_def orUndefined_def)
  show "timers ?s4 = timers st @ [(5000, jid), (10000, jid), (15000, jid)]"
    by (rule r4(5))
  show "fst (requestRetry jid later ?s4) = Rejected 400 ''Maximum retry limit reached''"
    using requestRetry_at_ceiling[OF r4(1) r4(2), of later] r4(4) by (simp add: orZero_def)
qed

theorem retry_policy_witness:
  "jobs freshQueue ''job-1'' = Some (newJob ''job-1'' ''doc-1'' 0)
   \<and> orZero (dbRetryCount (newJob ''job-1'' ''doc-1'' 0)) < 3
   \<and> dbRetryCount (newJob ''job-1'' ''doc-1'' 0) = Some 0
   \<and> map_option jobStatus (getJob ''job-1''
        (failedAttempt ''job-1'' ''fourth'' 40
          (failedAttempt ''job-1'' ''third'' 30
            (failedAttempt ''job-1'' ''second'' 20
              (failedAttempt ''job-1'' ''first'' 10 freshQueue))))) = Some ''failed''
   \<and> map_option jobErrorMessage (getJob ''job-1''
        (failedAttempt ''job-1'' ''fourth'' 40
          (failedAttempt ''job-1'' ''third'' 30
            (failedAttempt ''job-1'' ''second'' 20
              (failedAttempt ''job-1'' ''first'' 10 freshQueue))))) = Some (Some ''fourth'')
   \<and> timers (failedAttempt ''job-1'' ''fourth'' 40
          (failedAttempt ''job-1'' ''third'' 30
            (failedAttempt ''job-1'' ''second'' 20
              (failedAttempt ''job-1'' ''first'' 10 freshQueue))))
       = [(5000, ''job-1''), (10000, ''job-1''), (15000, ''job-1'')]
   \<and> (\<exists>j st'. markJobAsFailed ''job-1'' ''first'' 10 freshQueue = Inr (Some j, st')
          \<and> jobStatus j = ''pending'' \<and> jobProgress j = 0 \<and> jobRetryCount j = 1
          \<and> timers st' = [(5000, ''job-1'')])"
proof -
  have h: "jobs freshQueue ''job-1'' = Some (newJob ''job-1'' ''doc-1'' 0)"
    by (simp add: freshQueue_def)
  have z: "dbRetryCount (newJob ''job-1'' ''doc-1'' 0) = Some 0"
    by (simp add: newJob_def)
  have lt: "orZero (dbRetryCount (newJob ''job-1'' ''doc-1'' 0)) < 3"
    by (simp add: z orZero_def)
  have t0: "timers freshQueue = []" by (simp add: freshQueue_def)
  note p = retry_policy[OF h, where ?m1.0="''first''" and ?t1.0=10 and ?m2.0="''second''"
      and ?t2.0=20 and ?m3.0="''third''" and ?t3.0=30 and ?m4.0="''fourth''" and ?t4.0=40
      and msg="''first''" and now=10]
  from p[THEN conjunct1, rule_format, OF lt]
  have first: "\<exists>j st'. markJobAsFailed ''job-1'' ''first'' 10 freshQueue = Inr (Some j, st')
          \<and> jobStatus j = ''pending'' \<and> jobProgress j = 0 \<and> jobRetryCount j = 1
          \<and> timers st' = [(5000, ''job-1'')]"
    by (simp add: z orZero_def t0) blast
  from p[THEN conjunct2, THEN conjunct2, rule_format, OF z] h z lt first
  show ?thesis by (simp add: t0)
qed

section \<open>Properties of the document generator\<close>

subsection \<open>Evaluation on the concrete statements\<close>

lemma digit_chars:
  "char_of (48::nat) = CHR ''0''"
  "char_of (49::nat) = CHR ''1''"
  "char_of (50::nat) = CHR ''2''"
  "char_of (51::nat) = CHR ''3''"
  "char_of (52::nat) = CHR ''4''"
  "char_of (53::nat) = CHR ''5''"
  "char_of (54::nat) = CHR ''6''"
  "char_of (55::nat) = CHR ''7''"
  "char_of (56::nat) = CHR ''8''"
  "char_of (57::nat) = CHR ''9''"
  by code_simp+

lemma floor_examples:
  "\<lfloor>(300001::rat) / 2\<rfloor> = 150000" "\<lfloor>(180001::rat) / 2\<rfloor> = 90000"
  by (rule floor_unique; simp)+

lemma showNat_examples: "showNat 150000 = ''150000''" "showNat 90000 = ''90000''"
  by (simp_all add: showNat.simps digit_chars)

lemma formatNumberValue_examples:
  "formatNumberValue (Fin 1500) None = Inr ''1500''"
  "formatNumberValue (Fin 900) None = Inr ''900''"
  "formatNumberValue (Fin 1500) (Some 101) =
     Inl (JsError ''toFixed() digits argument must be between 0 and 100'')"
  by (simp_all add: formatNumberValue_def toFixed_def Let_def padLeft_def stripTrailingZeros_def
      floor_examples showNat_examples)

lemma showNat_dates:
  "showNat 2023 = ''2023''" "showNat 12 = ''12''" "showNat 31 = ''31''"
  "showNat (Suc 0) = ''1''"
  by (simp_all add: showNat.simps digit_chars)

lemma civil_examples:
  "civilFromDays 19722 = (2023, 12, 31)" "civilFromDays 19358 = (2023, 1, 1)"
  by code_simp+

lemma day_examples:
  "(1703980800000::int) div 86400000 = 19722" "(1672531200000::int) div 86400000 = 19358"
  by simp_all

lemma isoDate_examples:
  "isoDate 1703980800000 = ''2023-12-31''" "isoDate 1672531200000 = ''2023-01-01''"
  by (simp_all only: isoDate_def msPerDay_def day_examples civil_examples prod.case)
     (simp_all add: padLeft_def showNat_dates)

lemma formatDate_examples:
  "formatDate endOf2023 = Inr ''2023-12-31''"
  "formatDate (Some 1672531200000) = Inr ''2023-01-01''"
  "formatDate None = Inl (JsError ''Invalid time value'')"
  by (simp_all add: endOf2023_def formatDate_def isoDate_examples)

lemma getPeriodStartDate_examples:
  "getPeriodStartDate incomeStatement = Some 1672531200000"
  "getPeriodStartDate costStatement = Some 1672531200000"
  "getPeriodStartDate preciseStatement = Some 1672531200000"
  by code_simp+

lemma statement_dates:
  "periodEndDate incomeStatement = endOf2023" "periodEndDate costStatement = endOf2023"
  "periodEndDate preciseStatement = endOf2023" "periodEndDate undatedStatement = None"
  by (simp_all add: incomeStatement_def costStatement_def preciseStatement_def
      undatedStatement_def)

lemma contextId_examples:
  "generateContextId incomeStatement = Inr ''AsOf_20231231_income_statement_2023Q''"
  "generateContextId costStatement = Inr ''AsOf_20231231_income_statement_2023Q''"
  "generateContextId preciseStatement = Inr ''AsOf_20231231_income_statement_2023Q''"
  "generateContextId undatedStatement = Inl (JsError ''Invalid time value'')"
  by (simp_all add: generateContextId_def statement_dates formatDate_examples)
     (simp_all add: incomeStatement_def costStatement_def preciseStatement_def quarterText_def
        showInt_def showNat_dates)

lemma periodOf_examples:
  "periodOf incomeStatement = Inr (Element ''xbrli:period'' []
               [Element ''xbrli:startDate'' [] [Text ''2023-01-01''],
                Element ''xbrli:endDate'' [] [Text ''2023-12-31'']])"
  "periodOf costStatement = Inr (Element ''xbrli:period'' []
               [Element ''xbrli:startDate'' [] [Text ''2023-01-01''],
                Element ''xbrli:endDate'' [] [Text ''2023-12-31'']])"
  "periodOf preciseStatement = Inr (Element ''xbrli:period'' []
               [Element ''xbrli:startDate'' [] [Text ''2023-01-01''],
                Element ''xbrli:endDate'' [] [Text ''2023-12-31'']])"
  by (simp_all add: periodOf_def statement_dates getPeriodStartDate_examples formatDate_examples)
     (simp_all add: incomeStatement_def costStatement_def preciseStatement_def)

lemma context_examples:
  "createContextForStatement incomeStatement eurOptions = Inr exampleContext"
  "createContextForStatement costStatement eurOptions = Inr exampleContext"
  "createContextForStatement preciseStatement eurOptions = Inr exampleContext"
  "createContextForStatement undatedStatement eurOptions = Inl (JsError ''Invalid time value'')"
  by (simp_all add: createContextForStatement_def contextId_examples periodOf_examples
      exampleContext_def orElse_def eurOptions_def)

lemma entityInformation_example: "entityInformation eurOptions = Inr exampleEntityFacts"
  by (simp add: entityInformation_def generateDocumentContext_def eurOptions_def
      formatDate_examples exampleEntityFacts_def)
     (simp add: endOf2023_def getFullYear_def msPerDay_def civil_examples showInt_def
      showNat_dates)

lemma tag_examples:
  "getXBRLTagName revenueItem = Some ''us-gaap:Revenue''"
  "getXBRLTagName costItem = Some ''us-gaap:Costofsales''"
  "getXBRLTagName preciseItem = Some ''us-gaap:Revenue''"
  by code_simp+

lemma item_fields:
  "itemValue revenueItem = JNum (Fin 1500)" "decimals revenueItem = None" "isNil revenueItem = None"
  "itemValue costItem = JNum (Fin 900)" "decimals costItem = None" "isNil costItem = None"
  "itemValue preciseItem = JNum (Fin 1500)" "decimals preciseItem = Some 101"
  "isNil preciseItem = None"
  by (simp_all add: revenueItem_def costItem_def preciseItem_def)

lemma fact_examples:
  "createFinancialFact revenueItem ctx cur =
     Inr (Some (Element ''us-gaap:Revenue'' [(''contextRef'', ctx), (''unitRef'', cur)]
                  [Text ''1500'']))"
  "createFinancialFact costItem ctx cur =
     Inr (Some (Element ''us-gaap:Costofsales'' [(''contextRef'', ctx), (''unitRef'', cur)]
                  [Text ''900'']))"
  "createFinancialFact preciseItem ctx cur =
     Inl (JsError ''toFixed() digits argument must be between 0 and 100'')"
  by (simp_all add: createFinancialFact_def tag_examples item_fields formatNumberValue_examples)

lemma statement_items:
  "stItems incomeStatement = [revenueItem]" "stItems costStatement = [costItem]"
  "stItems preciseStatement = [preciseItem]"
  "optCurrency eurOptions = ''EUR''" "optTaxonomyFramework eurOptions = ''US-GAAP''"
  by (simp_all add: incomeStatement_def costStatement_def preciseStatement_def eurOptions_def)

lemma generate_income:
  "generateXBRL [incomeStatement] eurOptions now =
     Inr \<lparr>xbrlDocument = Some (Element ''xbrli:xbrl'' NAMESPACES
             (schemaRefs ''US-GAAP'' @ [exampleContext] @ unitDefinitions ''EUR''
              @ exampleEntityFacts
              @ [Element ''us-gaap:Revenue''
                   [(''contextRef'', ''AsOf_20231231_income_statement_2023Q''),
                    (''unitRef'', ''EUR'')] [Text ''1500'']])),
          totalFacts = 1, frameworks = [''US-GAAP''], currencies = [''EUR''],
          contexts = [''AsOf_20231231_income_statement_2023Q''], generatedAt = now,
          validationIssues = []\<rparr>"
  by (simp add: generateXBRL_def generateXBRLBody_def context_examples contextId_examples
      entityInformation_example fact_examples insertionOrder_def statement_items)

lemma generate_two:
  "generateXBRL [incomeStatement, costStatement] eurOptions now =
     Inr \<lparr>xbrlDocument = Some (Element ''xbrli:xbrl'' NAMESPACES
             (schemaRefs ''US-GAAP'' @ [exampleContext, exampleContext] @ unitDefinitions ''EUR''
              @ exampleEntityFacts
              @ [Element ''us-gaap:Revenue''
                   [(''contextRef'', ''AsOf_20231231_income_statement_2023Q''),
                    (''unitRef'', ''EUR'')] [Text ''1500''],
                 Element ''us-gaap:Costofsales''
                   [(''contextRef'', ''AsOf_20231231_income_statement_2023Q''),
                    (''unitRef'', ''EUR'')] [Text ''900'']])),
          totalFacts = 2, frameworks = [''US-GAAP''], currencies = [''EUR''],
          contexts = [''AsOf_20231231_income_statement_2023Q''], generatedAt = now,
          validationIssues = []\<rparr>"
  by (simp add: generateXBRL_def generateXBRLBody_def context_examples contextId_examples
      entityInformation_example fact_examples insertionOrder_def statement_items)


lemma generate_undated:
  "generateXBRL [undatedStatement] eurOptions now =
     Inr \<lparr>xbrlDocument = None, totalFacts = 0, frameworks = [], currencies = [],
          contexts = [], generatedAt = now,
          validationIssues = [''Generation failed: Invalid time value'']\<rparr>"
  by (simp add: generateXBRL_def generateXBRLBody_def context_examples errorMessageOf_def)

lemma reading_examples:
  "declaredIds ''xbrli:context'' (Element ''xbrli:xbrl'' NAMESPACES
       (schemaRefs ''US-GAAP'' @ ctxs @ unitDefinitions ''EUR'' @ exampleEntityFacts @ facts))
     = declaredIds ''xbrli:context'' (Element ''xbrli:xbrl'' [] (ctxs @ facts))"
  "declaredIds ''xbrli:unit'' (Element ''xbrli:xbrl'' NAMESPACES
       (schemaRefs ''US-GAAP'' @ ctxs @ unitDefinitions ''EUR'' @ exampleEntityFacts @ facts))
     = declaredIds ''xbrli:unit'' (Element ''xbrli:xbrl'' [] ctxs) @ [''USD'', ''pure'']
       @ declaredIds ''xbrli:unit'' (Element ''xbrli:xbrl'' [] facts)"
  by (simp_all add: declaredIds_def childrenOf_def schemaRefs_def unitDefinitions_def
      exampleEntityFacts_def tagOf_def attributeOf_def map_filter_def)

subsection \<open>References to contexts and units\<close>

text \<open>
  C1. The claim fails on the code for the very input it names. For a single income
  statement with one numeric item and the target currency EUR, the document declares the
  units \<open>USD\<close> (whose measure is \<open>iso4217:EUR\<close>) and \<open>pure\<close>, and the numeric fact
  refers to the unit \<open>EUR\<close>, which is not declared; the three entity facts refer to
  the context \<open>Document_20231231\<close>, and the only context declared is that of the
  statement.
\<close>

theorem references_unresolved:
  "map_option unitMeasures (documentOf (generateXBRL [incomeStatement] eurOptions 0))
     = Some [(''USD'', ''iso4217:EUR''), (''pure'', ''xbrli:pure'')]
   \<and> map_option (declaredIds ''xbrli:unit'') (documentOf (generateXBRL [incomeStatement] eurOptions 0))
     = Some [''USD'', ''pure'']
   \<and> map_option (references ''unitRef'') (documentOf (generateXBRL [incomeStatement] eurOptions 0))
     = Some [''EUR'']
   \<and> map_option (declaredIds ''xbrli:context'') (documentOf (generateXBRL [incomeStatement] eurOptions 0))
     = Some [''AsOf_20231231_income_statement_2023Q'']
   \<and> map_option (references ''contextRef'') (documentOf (generateXBRL [incomeStatement] eurOptions 0))
     = Some [''Document_20231231'', ''Document_20231231'', ''Document_20231231'',
             ''AsOf_20231231_income_statement_2023Q'']
   \<and> map_option referencesResolved (documentOf (generateXBRL [incomeStatement] eurOptions 0))
     = Some False"
  by (simp add: generate_income documentOf_def)
     (simp add: unitMeasures_def declaredIds_def references_def referencesResolved_def
      childrenOf_def tagOf_def attributeOf_def map_filter_def schemaRefs_def
      unitDefinitions_def exampleEntityFacts_def exampleContext_def)

subsection \<open>Context elements\<close>

lemma createContexts_per_statement:
  "(case createContexts statements options of
      Inl e \<Rightarrow> True
    | Inr (cs, ids) \<Rightarrow>
        length cs = length statements \<and> map (attributeOf ''id'') cs = map Some ids
        \<and> map Inr ids = map generateContextId statements)"
proof (induction statements)
  case Nil
  then show ?case by simp
next
  case (Cons s rest)
  show ?case
  proof (cases "createContextForStatement s options")
    case (Inl e)
    then show ?thesis by simp
  next
    case c: (Inr ctxEl)
    show ?thesis
    proof (cases "generateContextId s")
      case (Inl e)
      then show ?thesis using c by simp
    next
      case i: (Inr contextId)
      have a: "attributeOf ''id'' ctxEl = Some contextId"
        using c i by (auto simp: createContextForStatement_def attributeOf_def split: sum.splits)
      show ?thesis
      proof (cases "createContexts rest options")
        case (Inl e)
        then show ?thesis using c i by simp
      next
        case (Inr p)
        then show ?thesis using c i a Cons.IH by (cases p) simp
      qed
    qed
  qed
qed

text \<open>
  C3. The claim fails on the code where two statements share the tuple: the income
  statement and a second statement of the same kind, period end, fiscal year and quarter
  give two context elements with one and the same identifier, while the list of
  contexts in the metadata names it once. In general the first loop makes one context
  element per statement, whose identifier is that of the statement.
\<close>

theorem duplicate_context_elements:
  "map_option (declaredIds ''xbrli:context'')
       (documentOf (generateXBRL [incomeStatement, costStatement] eurOptions 0))
     = Some [''AsOf_20231231_income_statement_2023Q'', ''AsOf_20231231_income_statement_2023Q'']
   \<and> map_sum id contexts (generateXBRL [incomeStatement, costStatement] eurOptions 0)
     = Inr [''AsOf_20231231_income_statement_2023Q'']
   \<and> generateContextId incomeStatement = generateContextId costStatement
   \<and> (case createContexts statements options of
        Inl e \<Rightarrow> True
      | Inr (cs, ids) \<Rightarrow>
          length cs = length statements \<and> map (attributeOf ''id'') cs = map Some ids
          \<and> map Inr ids = map generateContextId statements)"
proof -
  have a: "map_option (declaredIds ''xbrli:context'')
       (documentOf (generateXBRL [incomeStatement, costStatement] eurOptions 0))
     = Some [''AsOf_20231231_income_statement_2023Q'', ''AsOf_20231231_income_statement_2023Q'']"
    by (simp add: generate_two documentOf_def)
       (simp add: declaredIds_def childrenOf_def tagOf_def attributeOf_def map_filter_def
        schemaRefs_def unitDefinitions_def exampleEntityFacts_def exampleContext_def)
  have b: "map_sum id contexts (generateXBRL [incomeStatement, costStatement] eurOptions 0)
     = Inr [''AsOf_20231231_income_statement_2023Q'']"
    by (simp add: generate_two)
  have c: "generateContextId incomeStatement = generateContextId costStatement"
    by (simp add: contextId_examples)
  from a b c createContexts_per_statement[of statements options] show ?thesis by (intro conjI)
qed

subsection \<open>Failures of the generation\<close>













end
